theory Spec2Isabelle
  imports Main
begin

section \<open>JavaScript values and errors\<close>

text \<open>
  The values a CommonJS module can export. Numbers are integers here (no claim depends on
  fractions or NaN). An object or a function written in a module carries its own data
  properties as an association list, and such a function is identified by a number; a
  function of the language is identified by its name; \<open>JBound f\<close> is the bound function
  that \<open>Function.prototype.bind\<close> makes of \<open>f\<close>.
\<close>

datatype jsvalue =
    JUndefined
  | JNull
  | JBool bool
  | JNum int
  | JStr string
  | JArr "jsvalue list"
  | JObj "(string \<times> jsvalue) list"
  | JFun nat "(string \<times> jsvalue) list"
  | JBuiltin string
  | JBound jsvalue

datatype error_class =
    Error
  | TypeError
  | SchematicsException
  | UnknownCollectionError
  | UnsuccessfulWorkflowExecution

record js_error =
  cls :: error_class
  code :: "string option"
  message :: string
  stack :: "string option"

text \<open>JavaScript truthiness: what \<open>!x\<close> and \<open>x || y\<close> test.\<close>

fun truthy :: "jsvalue \<Rightarrow> bool" where
  "truthy JUndefined = False"
| "truthy JNull = False"
| "truthy (JBool b) = b"
| "truthy (JNum n) = (n \<noteq> 0)"
| "truthy (JStr s) = (s \<noteq> [])"
| "truthy v = True"

definition js_or :: "jsvalue \<Rightarrow> jsvalue \<Rightarrow> jsvalue" where
  "js_or a b = (if truthy a then a else b)"

fun nullish :: "jsvalue \<Rightarrow> bool" where
  "nullish JUndefined = True"
| "nullish JNull = True"
| "nullish v = False"

text \<open>The values that can be called: the functions.\<close>

fun callable :: "jsvalue \<Rightarrow> bool" where
  "callable (JFun f ps) = True"
| "callable (JBuiltin n) = True"
| "callable (JBound f) = True"
| "callable v = False"

text \<open>
  A TypeError raised by the language. The wording of its message differs between versions
  of the engine; the model keeps a text that names the operation that failed.
\<close>

definition type_error :: "string \<Rightarrow> js_error" where
  "type_error m = \<lparr>cls = TypeError, code = None, message = m, stack = None\<rparr>"

section \<open>NodeModuleJobRegistry\<close>

subsection \<open>The environment\<close>

text \<open>
  What the registry asks of Node.js and of the language is not code of the repository. The
  model takes it from a description of the environment, which says for each request
  whether it returns a value or throws. A description need not answer every request: where
  it is silent the answer is \<open>Unknown\<close>, and a run that needs such an answer is \<open>Unknown\<close>
  too. A description that answers everything is an environment in full.
\<close>

datatype 'a outcome = Returns 'a | Throws js_error | Unknown

fun and_then :: "'a outcome \<Rightarrow> ('a \<Rightarrow> 'b outcome) \<Rightarrow> 'b outcome" where
  "and_then (Returns x) f = f x"
| "and_then (Throws e) f = Throws e"
| "and_then Unknown f = Unknown"

text \<open>
  \<^item> \<open>require_resolve\<close>: \<open>require.resolve(name)\<close>, the path of a module;
  \<^item> \<open>require\<close>: \<open>require(path)\<close>, the \<open>module.exports\<close> of the module at a path;
  \<^item> \<open>isJsonSchema\<close>: the predicate \<open>schema.isJsonSchema\<close> of the JSON schema library;
  \<^item> \<open>js_get\<close>: the property read \<open>v[k]\<close> on a value other than \<open>undefined\<close> and
    \<open>null\<close>: own properties, inherited members, accessors;
  \<^item> \<open>js_call\<close>: the call of a function with a \<open>this\<close> value and arguments;
  \<^item> \<open>js_assign\<close>: what \<open>Object.assign(target, {jobDescription: ...})\<close> does on a target
    other than \<open>undefined\<close> and \<open>null\<close>: it sets the property, or throws where the target
    does not take it.
\<close>

record node_env =
  require_resolve :: "string \<Rightarrow> string outcome"
  require :: "string \<Rightarrow> jsvalue outcome"
  isJsonSchema :: "jsvalue \<Rightarrow> bool"
  js_get :: "jsvalue \<Rightarrow> string \<Rightarrow> jsvalue outcome"
  js_call :: "jsvalue \<Rightarrow> jsvalue \<Rightarrow> jsvalue list \<Rightarrow> jsvalue outcome"
  js_assign :: "jsvalue \<Rightarrow> unit outcome"

text \<open>
  Property access \<open>v[k]\<close>: reading any property of \<open>undefined\<close> or \<open>null\<close> throws a
  TypeError; every other read is the environment's.
\<close>

definition get_prop :: "node_env \<Rightarrow> jsvalue \<Rightarrow> string \<Rightarrow> jsvalue outcome" where
  "get_prop env v k =
     (if nullish v then Throws (type_error ''Cannot read properties of undefined or null'')
      else js_get env v k)"

subsection \<open>The registry\<close>

text \<open>
  \<open>_resolve\<close>: a MODULE_NOT_FOUND error becomes \<open>null\<close> (\<open>None\<close>), every other error is
  thrown again.
\<close>

definition resolve :: "node_env \<Rightarrow> string \<Rightarrow> string option outcome" where
  "resolve env name =
     (case require_resolve env name of
        Returns p \<Rightarrow> Returns (Some p)
      | Throws e \<Rightarrow> if code e = Some ''MODULE_NOT_FOUND'' then Returns None else Throws e
      | Unknown \<Rightarrow> Unknown)"

text \<open>
  \<open>name.split(/#/, 2)\<close>: the string is cut at every \<open>#\<close> and the first two pieces are
  kept. The result of the full split is never empty.
\<close>

fun split_hash :: "string \<Rightarrow> string list" where
  "split_hash [] = [ [] ]"
| "split_hash (c # cs) =
     (if c = CHR ''#'' then [] # split_hash cs
      else (case split_hash cs of p # ps \<Rightarrow> (c # p) # ps | [] \<Rightarrow> [ [c] ]))"

definition split_limit2 :: "string \<Rightarrow> string list" where
  "split_limit2 name = take 2 (split_hash name)"

text \<open>The destructuring \<open>[moduleName, exportName] = ...\<close>; a missing piece is \<open>undefined\<close>.\<close>

definition moduleName :: "string \<Rightarrow> string" where
  "moduleName name = (case split_limit2 name of m # _ \<Rightarrow> m | [] \<Rightarrow> [])"

definition exportName :: "string \<Rightarrow> string option" where
  "exportName name = (case split_limit2 name of _ # e # _ \<Rightarrow> Some e | _ \<Rightarrow> None)"

text \<open>\<open>exportName || 'default'\<close>: \<open>undefined\<close> and the empty string are both falsy.\<close>

definition exportKey :: "string \<Rightarrow> string" where
  "exportKey name =
     (case exportName name of
        None \<Rightarrow> ''default''
      | Some e \<Rightarrow> if e = [] then ''default'' else e)"

text \<open>\<open>_getValue(...fields)\<close>: \<open>fields.find(x => schema.isJsonSchema(x)) || true\<close>.\<close>

definition getValue :: "node_env \<Rightarrow> jsvalue list \<Rightarrow> jsvalue" where
  "getValue env xs =
     js_or (case find (isJsonSchema env) xs of Some x \<Rightarrow> x | None \<Rightarrow> JUndefined)
           (JBool True)"

record job_description =
  argument :: jsvalue
  input :: jsvalue
  output_schema :: jsvalue  \<comment> \<open>the field \<open>output\<close>\<close>
  channels :: jsvalue

text \<open>
  One line of the four \<open>const x = _getValue(pkg.x, handler.x)\<close>: the two reads, in this
  order, then \<open>_getValue\<close>; and the four lines in their order.
\<close>

definition schema_field :: "node_env \<Rightarrow> jsvalue \<Rightarrow> jsvalue \<Rightarrow> string \<Rightarrow> jsvalue outcome" where
  "schema_field env pkg handler k =
     and_then (get_prop env pkg k) (\<lambda>a.
     and_then (get_prop env handler k) (\<lambda>b.
     Returns (getValue env [a, b])))"

definition describe :: "node_env \<Rightarrow> jsvalue \<Rightarrow> jsvalue \<Rightarrow> job_description outcome" where
  "describe env pkg handler =
     and_then (schema_field env pkg handler ''argument'') (\<lambda>a.
     and_then (schema_field env pkg handler ''input'') (\<lambda>i.
     and_then (schema_field env pkg handler ''output'') (\<lambda>out.
     and_then (schema_field env pkg handler ''channels'') (\<lambda>c.
     Returns \<lparr>argument = a, input = i, output_schema = out, channels = c\<rparr>))))"

text \<open>
  \<open>handler.bind(undefined)\<close>: the member \<open>bind\<close> of the handler is read and called with
  the handler as \<open>this\<close>; calling a value that is not a function throws a TypeError.
\<close>

definition bind_handler :: "node_env \<Rightarrow> jsvalue \<Rightarrow> jsvalue outcome" where
  "bind_handler env handler =
     and_then (get_prop env handler ''bind'') (\<lambda>f.
     if callable f then js_call env f handler [JUndefined]
     else Throws (type_error ''handler.bind is not a function''))"

text \<open>
  \<open>Object.assign(target, {jobDescription: ...})\<close>: a target \<open>undefined\<close> or \<open>null\<close>
  throws a TypeError.
\<close>

definition assign_description :: "node_env \<Rightarrow> jsvalue \<Rightarrow> unit outcome" where
  "assign_description env target =
     (if nullish target then Throws (type_error ''Cannot convert undefined or null to object'')
      else js_assign env target)"

text \<open>
  The value \<open>get\<close> hands out: the value \<open>handler.bind(undefined)\<close> returned (\<open>bound\<close>),
  with the property \<open>jobDescription\<close> assigned to it.
\<close>

record job_handler =
  bound :: jsvalue
  jobDescription :: job_description

text \<open>
  \<open>get(name)\<close>. The observable emits one value, \<open>null\<close> (\<open>None\<close>) or the handler; an
  exception leaves the method before any observable is returned.
\<close>

definition get :: "node_env \<Rightarrow> string \<Rightarrow> job_handler option outcome" where
  "get env name =
     and_then (resolve env (moduleName name)) (\<lambda>resolvedPath.
     case resolvedPath of
       None \<Rightarrow> Returns None
     | Some rp \<Rightarrow>
         if rp = [] then Returns None
         else
           and_then (require env rp) (\<lambda>pkg.
           and_then (get_prop env pkg (exportKey name)) (\<lambda>handler.
           if \<not> truthy handler then Returns None
           else
             and_then (describe env pkg handler) (\<lambda>d.
             and_then (bind_handler env handler) (\<lambda>b.
             and_then (assign_description env b) (\<lambda>u.
             Returns (Some \<lparr>bound = b, jobDescription = d\<rparr>)))))))"

section \<open>SchematicCommand\<close>

subsection \<open>getCollection\<close>

text \<open>
  The engine's \<open>createCollection\<close> is taken as it is called: a function from the
  collection name to a collection or \<open>null\<close> (\<open>None\<close>).
\<close>

record 'c engine =
  createCollection :: "string \<Rightarrow> 'c option"

text \<open>\<open>new UnknownCollectionError(collectionName)\<close>.\<close>

definition unknownCollectionError :: "string \<Rightarrow> js_error" where
  "unknownCollectionError collectionName =
     \<lparr>cls = UnknownCollectionError, code = None,
      message = ''Invalid collection ('' @ collectionName @ '').'', stack = None\<rparr>"

definition getCollection :: "'c engine \<Rightarrow> string \<Rightarrow> js_error + 'c" where
  "getCollection eng collectionName =
     (case createCollection eng collectionName of
        None \<Rightarrow> Inl (unknownCollectionError collectionName)
      | Some collection \<Rightarrow> Inr collection)"

subsection \<open>runSchematic: the reporter, the life cycle and the outcome of the workflow\<close>

datatype log_level = Debug | Info | Warn | Fatal



text \<open>
  The helpers of the terminal: the four \<open>colors\<close> functions and \<open>tags.oneLine\<close> are
  parameters; a number in a template literal is written in decimal.
\<close>

record format =
  cyan :: "string \<Rightarrow> string"
  green :: "string \<Rightarrow> string"
  yellow :: "string \<Rightarrow> string"
  blue :: "string \<Rightarrow> string"
  oneLine :: "string \<Rightarrow> string"














definition dquote :: string where
  "dquote = [CHR 0x22]"






section \<open>The ng-new rule: registration of the tasks\<close>

datatype task_id = TaskId nat

text \<open>
  The value passed as \<open>commit\<close> to the repository initializer: an object with the commit
  data, the empty object or \<open>false\<close>; and the option it is computed from.
\<close>

datatype commit_option = CommitUndefined | CommitBool bool | CommitObject "(string \<times> string) list"

datatype commit_value = CommitFalse | CommitWith "(string \<times> string) list"

datatype task_configuration =
    NodePackageInstallTask string "string option"  \<comment> \<open>\<open>workingDirectory\<close>, \<open>packageManager\<close>\<close>
  | NodePackageLinkTask string string  \<comment> \<open>package name, working directory\<close>
  | RepositoryInitializerTask string commit_value  \<comment> \<open>working directory, \<open>commit\<close>\<close>

record task_info =
  task_id_of :: task_id
  configuration :: task_configuration
  dependencies :: "task_id list"

record schematic_context =
  tasks :: "task_info list"

text \<open>
  Modelled from the spec: \<open>context.addTask\<close> is not among the sources. It is the
  registration call of the execution context: the task is appended to the accumulated task
  list in creation order, with the dependency list it was given, and its id is the next
  index of a monotonically increasing counter; the id is an opaque object, so it is truthy.
  Nothing is checked at registration.
\<close>

definition addTask ::
  "task_configuration \<Rightarrow> task_id list \<Rightarrow> schematic_context \<Rightarrow> task_id \<times> schematic_context" where
  "addTask task deps ctx =
     (let tid = TaskId (length (tasks ctx))
      in (tid, ctx\<lparr>tasks := tasks ctx @
                   [\<lparr>task_id_of = tid, configuration = task, dependencies = deps\<rparr>]\<rparr>))"

record ng_new_options =
  directory :: string
  packageManager :: "string option"
  skipInstall :: bool
  linkCli :: bool
  skipGit :: bool
  commit :: commit_option

text \<open>
  \<open>typeof options.commit == 'object' ? options.commit : (!!options.commit ? {} : false)\<close>.
\<close>

fun commit_of :: "commit_option \<Rightarrow> commit_value" where
  "commit_of (CommitObject c) = CommitWith c"
| "commit_of (CommitBool b) = (if b then CommitWith [] else CommitFalse)"
| "commit_of CommitUndefined = CommitFalse"

text \<open>
  The second rule of the chain, \<open>(_host, context) => { ... }\<close>: \<open>packageTask\<close> is
  \<open>undefined\<close> (\<open>None\<close>) until a task is registered.
\<close>

definition register_tasks :: "ng_new_options \<Rightarrow> schematic_context \<Rightarrow> schematic_context" where
  "register_tasks options ctx =
     (let (packageTask, ctx1) =
            (if \<not> skipInstall options then
               (let (t1, c1) =
                      addTask (NodePackageInstallTask (directory options) (packageManager options))
                        [] ctx
                in if linkCli options then
                     (let (t2, c2) =
                            addTask (NodePackageLinkTask ''@angular/cli'' (directory options))
                              [t1] c1
                      in (Some t2, c2))
                   else (Some t1, c1))
             else (None, ctx))
      in if \<not> skipGit options then
           snd (addTask (RepositoryInitializerTask (directory options) (commit_of (commit options)))
                  (case packageTask of Some t \<Rightarrow> [t] | None \<Rightarrow> []) ctx1)
         else ctx1)"

text \<open>The dependency graph of a task list: an edge from a task to each task it depends on.\<close>

definition dependency_edges :: "task_info list \<Rightarrow> (task_id \<times> task_id) set" where
  "dependency_edges ts = {(task_id_of t, d) | t d. t \<in> set ts \<and> d \<in> set (dependencies t)}"

section \<open>The Virtual Tree\<close>

text \<open>
  Modelled from the spec: the Tree of the schematics engine is not among the sources. A Tree
  owns an ordered, append-only sequence of staged actions over a base file store; reading
  a path replays the staged actions over the base store; \<open>create\<close> fails with
  \<open>PathAlreadyExistsError\<close> if a live file exists at the path (considering prior staged
  actions), \<open>overwrite\<close> fails with \<open>PathDoesNotExistError\<close> if there is no prior create or
  existing file, \<open>delete\<close> fails if the path does not currently exist. The effective action
  of a path is computed by folding the action log of that path. Rename, branch and merge
  are left out.
\<close>

datatype action =
    Create string string  \<comment> \<open>\<open>path\<close>, \<open>content\<close>\<close>
  | Overwrite string string  \<comment> \<open>\<open>path\<close>, \<open>content\<close>\<close>
  | Delete string  \<comment> \<open>\<open>path\<close>\<close>

datatype tree_error = PathAlreadyExistsError string | PathDoesNotExistError string

record tree =
  base :: "string \<Rightarrow> string option"
  actions :: "action list"

fun action_path :: "action \<Rightarrow> string" where
  "action_path (Create p c) = p"
| "action_path (Overwrite p c) = p"
| "action_path (Delete p) = p"

fun apply_action :: "(string \<Rightarrow> string option) \<Rightarrow> action \<Rightarrow> (string \<Rightarrow> string option)" where
  "apply_action st (Create p c) = st(p \<mapsto> c)"
| "apply_action st (Overwrite p c) = st(p \<mapsto> c)"
| "apply_action st (Delete p) = st(p := None)"

definition read :: "tree \<Rightarrow> string \<Rightarrow> string option" where
  "read t p = foldl apply_action (base t) (actions t) p"

definition exists :: "tree \<Rightarrow> string \<Rightarrow> bool" where
  "exists t p = (read t p \<noteq> None)"

definition stage :: "action \<Rightarrow> tree \<Rightarrow> tree" where
  "stage a t = t\<lparr>actions := actions t @ [a]\<rparr>"

definition create :: "tree \<Rightarrow> string \<Rightarrow> string \<Rightarrow> tree_error + tree" where
  "create t p c = (if exists t p then Inl (PathAlreadyExistsError p) else Inr (stage (Create p c) t))"

definition overwrite :: "tree \<Rightarrow> string \<Rightarrow> string \<Rightarrow> tree_error + tree" where
  "overwrite t p c =
     (if \<not> exists t p then Inl (PathDoesNotExistError p) else Inr (stage (Overwrite p c) t))"

definition delete :: "tree \<Rightarrow> string \<Rightarrow> tree_error + tree" where
  "delete t p = (if \<not> exists t p then Inl (PathDoesNotExistError p) else Inr (stage (Delete p) t))"

text \<open>An operation on one path, and a sequence of them issued in order; the first failure ends it.\<close>

datatype operation = DoCreate string | DoOverwrite string | DoDelete

fun issue :: "tree \<Rightarrow> string \<Rightarrow> operation \<Rightarrow> tree_error + tree" where
  "issue t p (DoCreate c) = create t p c"
| "issue t p (DoOverwrite c) = overwrite t p c"
| "issue t p DoDelete = delete t p"

fun issue_all :: "tree \<Rightarrow> string \<Rightarrow> operation list \<Rightarrow> tree_error + tree" where
  "issue_all t p [] = Inr t"
| "issue_all t p (x # xs) =
     (case issue t p x of Inl err \<Rightarrow> Inl err | Inr t' \<Rightarrow> issue_all t' p xs)"

text \<open>
  The effective action of a path: none, or one create, overwrite or delete. Folding one
  more operation into it: a create followed by a delete cancels, a create followed by an
  overwrite stays a create with the latest content.
\<close>

datatype effective = NoAction | EffCreate string | EffOverwrite string | EffDelete

fun fold_operation :: "effective \<Rightarrow> operation \<Rightarrow> effective" where
  "fold_operation NoAction (DoCreate c) = EffCreate c"
| "fold_operation NoAction (DoOverwrite c) = EffOverwrite c"
| "fold_operation NoAction DoDelete = EffDelete"
| "fold_operation (EffCreate b) (DoCreate c) = EffCreate c"
| "fold_operation (EffCreate b) (DoOverwrite c) = EffCreate c"
| "fold_operation (EffCreate b) DoDelete = NoAction"
| "fold_operation (EffOverwrite b) (DoCreate c) = EffOverwrite c"
| "fold_operation (EffOverwrite b) (DoOverwrite c) = EffOverwrite c"
| "fold_operation (EffOverwrite b) DoDelete = EffDelete"
| "fold_operation EffDelete (DoCreate c) = EffOverwrite c"
| "fold_operation EffDelete (DoOverwrite c) = EffOverwrite c"
| "fold_operation EffDelete DoDelete = EffDelete"

fun operation_of :: "action \<Rightarrow> operation" where
  "operation_of (Create p c) = DoCreate c"
| "operation_of (Overwrite p c) = DoOverwrite c"
| "operation_of (Delete p) = DoDelete"

text \<open>Finalizing: the action log is replayed path by path.\<close>

definition effective_action :: "tree \<Rightarrow> string \<Rightarrow> effective" where
  "effective_action t p =
     foldl fold_operation NoAction (map operation_of (filter (\<lambda>a. action_path a = p) (actions t)))"

text \<open>What committing an effective action does to the file at its path in the store.\<close>

fun commit_effective :: "effective \<Rightarrow> string option \<Rightarrow> string option" where
  "commit_effective NoAction b = b"
| "commit_effective (EffCreate c) b = Some c"
| "commit_effective (EffOverwrite c) b = Some c"
| "commit_effective EffDelete b = None"

section \<open>The web worker schematic\<close>

record target_definition =
  builder :: string
  target_options :: "(string \<times> jsvalue) list"

record project_definition =
  root :: string
  extensions :: "(string \<times> jsvalue) list"
  targets :: "(string \<times> target_definition) list"

record workspace_definition =
  projects :: "(string \<times> project_definition) list"

record web_worker_options =
  project :: "string option"
  target :: "string option"
  path :: "string option"
  name :: string
  snippet :: bool

text \<open>\<open>!x\<close> for an optional string: \<open>undefined\<close> and the empty string are falsy.\<close>

fun present :: "string option \<Rightarrow> string option" where
  "present None = None"
| "present (Some x) = (if x = [] then None else Some x)"

definition schematicsException :: "string \<Rightarrow> js_error" where
  "schematicsException m = \<lparr>cls = SchematicsException, code = None, message = m, stack = None\<rparr>"

definition plain_error :: "string \<Rightarrow> js_error" where
  "plain_error m = \<lparr>cls = Error, code = None, message = m, stack = None\<rparr>"

text \<open>
  The rule returned by the default export. A rule works on the host Tree in place, so the
  model returns the Tree it leaves behind together with the error thrown, if any.
  \<open>getWorkspace\<close> (which reads the workspace file through the host) and the rest of the
  rule from \<open>projectTargetOptions\<close> on (the chain that adds the configuration, the snippet
  and the worker files) are parameters.
\<close>

definition web_worker ::
  "(tree \<Rightarrow> js_error + workspace_definition) \<Rightarrow>
   (web_worker_options \<Rightarrow> workspace_definition \<Rightarrow> project_definition \<Rightarrow> target_definition
      \<Rightarrow> tree \<Rightarrow> js_error option \<times> tree) \<Rightarrow>
   web_worker_options \<Rightarrow> tree \<Rightarrow> js_error option \<times> tree" where
  "web_worker getWorkspace continue options host =
     (case getWorkspace host of
        Inl err \<Rightarrow> (Some err, host)
      | Inr workspace \<Rightarrow>
          (case present (project options) of
             None \<Rightarrow> (Some (schematicsException (''Option '' @ dquote @ ''project'' @ dquote
                                                  @ '' is required.'')), host)
           | Some projectName \<Rightarrow>
               (case present (target options) of
                  None \<Rightarrow> (Some (schematicsException (''Option '' @ dquote @ ''target'' @ dquote
                                                       @ '' is required.'')), host)
                | Some targetName \<Rightarrow>
                    (case map_of (projects workspace) projectName of
                       None \<Rightarrow> (Some (schematicsException
                                        (''Invalid project name ('' @ projectName @ '')'')), host)
                     | Some proj \<Rightarrow>
                         if map_of (extensions proj) ''projectType'' \<noteq> Some (JStr ''application'')
                         then (Some (schematicsException
                                 (''Web Worker requires a project type of '' @ dquote
                                    @ ''application'' @ dquote @ ''.'')), host)
                         else
                           (case map_of (targets proj) targetName of
                              None \<Rightarrow> (Some (plain_error ''Target is not defined for this project.''),
                                        host)
                            | Some projectTarget \<Rightarrow>
                                continue options workspace proj projectTarget host)))))"

section \<open>Notions used to state the properties\<close>




text \<open>
  The number inside a task id; a task list without forward references: every dependency
  of a task is among the ids handed out before it (\<open>seen\<close>); and the tasks one run of the
  registration step adds to a context.
\<close>

fun task_number :: "task_id \<Rightarrow> nat" where
  "task_number (TaskId k) = k"

fun no_forward :: "task_id list \<Rightarrow> task_info list \<Rightarrow> bool" where
  "no_forward seen [] = True"
| "no_forward seen (t # ts) =
     (set (dependencies t) \<subseteq> set seen \<and> no_forward (seen @ [task_id_of t]) ts)"

definition registered :: "ng_new_options \<Rightarrow> schematic_context \<Rightarrow> task_info list" where
  "registered options ctx = drop (length (tasks ctx)) (tasks (register_tasks options ctx))"

text \<open>
  The action an operation stages, and how the effective action of a path, what reading the
  path gives and the base store fit together.
\<close>

fun action_of :: "string \<Rightarrow> operation \<Rightarrow> action" where
  "action_of p (DoCreate c) = Create p c"
| "action_of p (DoOverwrite c) = Overwrite p c"
| "action_of p DoDelete = Delete p"

fun consistent :: "effective \<Rightarrow> string option \<Rightarrow> string option \<Rightarrow> bool" where
  "consistent NoAction rd b = (rd = b)"
| "consistent (EffCreate c) rd b = (rd = Some c \<and> b = None)"
| "consistent (EffOverwrite c) rd b = (rd = Some c \<and> b \<noteq> None)"
| "consistent EffDelete rd b = (rd = None \<and> b \<noteq> None)"


text \<open>
  A description of the environment is extended by another when the second answers as the
  first wherever the first answers.
\<close>

definition agrees :: "'a outcome \<Rightarrow> 'a outcome \<Rightarrow> bool" where
  "agrees a b = (a = Unknown \<or> a = b)"

definition extends :: "node_env \<Rightarrow> node_env \<Rightarrow> bool" where
  "extends d env =
     ((\<forall>n. agrees (require_resolve d n) (require_resolve env n)) \<and>
      (\<forall>p. agrees (require d p) (require env p)) \<and>
      isJsonSchema d = isJsonSchema env \<and>
      (\<forall>v k. agrees (js_get d v k) (js_get env v k)) \<and>
      (\<forall>f t as. agrees (js_call d f t as) (js_call env f t as)) \<and>
      (\<forall>t. agrees (js_assign d t) (js_assign env t)))"

text \<open>The lines of \<open>get\<close> after the test \<open>if (!handler)\<close>.\<close>

definition finish :: "node_env \<Rightarrow> jsvalue \<Rightarrow> jsvalue \<Rightarrow> job_handler option outcome" where
  "finish env pkg handler =
     and_then (describe env pkg handler) (\<lambda>d.
     and_then (bind_handler env handler) (\<lambda>b.
     and_then (assign_description env b) (\<lambda>u.
     Returns (Some \<lparr>bound = b, jobDescription = d\<rparr>))))"
section \<open>Sample inputs\<close>

text \<open>
  Modelled from the spec: \<open>schema.isJsonSchema\<close> is not among the sources. A JSON schema
  is an object that is not an array, or a boolean, \<open>true\<close> being the explicit schema that
  accepts anything.
\<close>

definition isJsonSchema_std :: "jsvalue \<Rightarrow> bool" where
  "isJsonSchema_std v = (case v of JObj _ \<Rightarrow> True | JBool _ \<Rightarrow> True | _ \<Rightarrow> False)"

text \<open>
  Two errors of \<open>require.resolve\<close>: the module is not found, and the package has an
  \<open>exports\<close> map that does not expose the subpath asked for.
\<close>

definition module_not_found :: js_error where
  "module_not_found =
     \<lparr>cls = Error, code = Some ''MODULE_NOT_FOUND'', message = ''Cannot find module'',
      stack = None\<rparr>"

definition path_not_exported :: js_error where
  "path_not_exported =
     \<lparr>cls = Error, code = Some ''ERR_PACKAGE_PATH_NOT_EXPORTED'',
      message = ''Package subpath ./internal is not defined by '' @ dquote @ ''exports'' @ dquote
                  @ '' in /node_modules/sealed/package.json'',
      stack = None\<rparr>"

text \<open>
  Four modules of a package \<open>jobs\<close>:
  \<^item> \<open>add.js\<close> exports two functions, \<open>default\<close> and \<open>sum\<close>, and declares no schema;
    \<open>sum\<close> carries the schema \<open>{}\<close> as its property \<open>argument\<close>;
  \<^item> \<open>explicit.js\<close> exports the \<open>default\<close> function of \<open>add.js\<close> and declares every
    schema as \<open>true\<close>;
  \<^item> \<open>config.js\<close> has a configuration object as its default export;
  \<^item> \<open>nothing.js\<close> is \<open>module.exports = null\<close>.
\<close>

definition add_module :: jsvalue where
  "add_module = JObj [(''default'', JFun 0 []), (''sum'', JFun 1 [(''argument'', JObj [])])]"

definition explicit_module :: jsvalue where
  "explicit_module =
     JObj [(''default'', JFun 0 []), (''argument'', JBool True), (''input'', JBool True),
           (''output'', JBool True), (''channels'', JBool True)]"

definition config_module :: jsvalue where
  "config_module = JObj [(''default'', JObj [(''retries'', JNum 3)])]"

text \<open>
  What is known of \<open>require.resolve\<close> and \<open>require\<close> where the package \<open>jobs\<close> is
  installed: its four modules resolve and load, it has no module \<open>none\<close>, and the
  package \<open>sealed\<close> does not expose its subpath \<open>internal\<close>.
\<close>

definition sample_resolve :: "string \<Rightarrow> string outcome" where
  "sample_resolve n =
     (if n = ''jobs/add'' then Returns ''/node_modules/jobs/add.js''
      else if n = ''jobs/explicit'' then Returns ''/node_modules/jobs/explicit.js''
      else if n = ''jobs/config'' then Returns ''/node_modules/jobs/config.js''
      else if n = ''jobs/nothing'' then Returns ''/node_modules/jobs/nothing.js''
      else if n = ''jobs/none'' then Throws module_not_found
      else if n = ''sealed/internal'' then Throws path_not_exported
      else Unknown)"

definition sample_require :: "string \<Rightarrow> jsvalue outcome" where
  "sample_require p =
     (if p = ''/node_modules/jobs/add.js'' then Returns add_module
      else if p = ''/node_modules/jobs/explicit.js'' then Returns explicit_module
      else if p = ''/node_modules/jobs/config.js'' then Returns config_module
      else if p = ''/node_modules/jobs/nothing.js'' then Returns JNull
      else Unknown)"

text \<open>
  What is known of the language for these values. An object gives its own properties and
  \<open>undefined\<close> for every name that is neither its own nor a member of
  \<open>Object.prototype\<close>. A function gives its own properties; unless it has its own, its
  \<open>bind\<close> is \<open>Function.prototype.bind\<close> and the four schema names read \<open>undefined\<close>.
  \<open>Function.prototype.bind\<close> called on a function with the one argument \<open>undefined\<close>
  returns the bound function, and a bound function takes a new property.
\<close>

definition object_prototype_members :: "string list" where
  "object_prototype_members =
     [''constructor'', ''__defineGetter__'', ''__defineSetter__'', ''hasOwnProperty'',
      ''__lookupGetter__'', ''__lookupSetter__'', ''isPrototypeOf'', ''propertyIsEnumerable'',
      ''toString'', ''valueOf'', ''__proto__'', ''toLocaleString'']"

definition function_member :: "string \<Rightarrow> jsvalue outcome" where
  "function_member k =
     (if k = ''bind'' then Returns (JBuiltin ''Function.prototype.bind'')
      else if k \<in> set [''argument'', ''input'', ''output'', ''channels''] then Returns JUndefined
      else Unknown)"

fun sample_get :: "jsvalue \<Rightarrow> string \<Rightarrow> jsvalue outcome" where
  "sample_get (JObj ps) k =
     (case map_of ps k of
        Some v \<Rightarrow> Returns v
      | None \<Rightarrow> if k \<in> set object_prototype_members then Unknown else Returns JUndefined)"
| "sample_get (JFun f ps) k =
     (case map_of ps k of Some v \<Rightarrow> Returns v | None \<Rightarrow> function_member k)"
| "sample_get (JBuiltin n) k = function_member k"
| "sample_get (JBound f) k = function_member k"
| "sample_get v k = Unknown"

definition sample_call :: "jsvalue \<Rightarrow> jsvalue \<Rightarrow> jsvalue list \<Rightarrow> jsvalue outcome" where
  "sample_call f this args =
     (if f = JBuiltin ''Function.prototype.bind'' \<and> callable this \<and> args = [JUndefined]
      then Returns (JBound this) else Unknown)"

fun sample_assign :: "jsvalue \<Rightarrow> unit outcome" where
  "sample_assign (JBound f) = Returns ()"
| "sample_assign v = Unknown"

definition sample_env :: node_env where
  "sample_env =
     \<lparr>require_resolve = sample_resolve, require = sample_require,
      isJsonSchema = isJsonSchema_std, js_get = sample_get, js_call = sample_call,
      js_assign = sample_assign\<rparr>"

text \<open>The same where the package \<open>jobs\<close> is not installed.\<close>

definition bare_env :: node_env where
  "bare_env =
     \<lparr>require_resolve =
        (\<lambda>n. if n \<in> set [''jobs/add'', ''jobs/explicit'', ''jobs/config'', ''jobs/nothing'',
                            ''jobs/none'']
              then Throws module_not_found else Unknown),
      require = (\<lambda>p. Unknown),
      isJsonSchema = isJsonSchema_std, js_get = sample_get, js_call = sample_call,
      js_assign = sample_assign\<rparr>"

definition add_handler :: job_handler where
  "add_handler =
     \<lparr>bound = JBound (JFun 0 []),
      jobDescription = \<lparr>argument = JBool True, input = JBool True, output_schema = JBool True,
                        channels = JBool True\<rparr>\<rparr>"


definition sample_engine :: "nat engine" where
  "sample_engine =
     \<lparr>createCollection = (\<lambda>n. if n = ''@schematics/angular'' then Some 7 else None)\<rparr>"




definition sample_options :: ng_new_options where
  "sample_options =
     \<lparr>directory = ''my-app'', packageManager = Some ''npm'', skipInstall = False, linkCli = True,
      skipGit = False, commit = CommitBool True\<rparr>"

definition empty_tree :: tree where
  "empty_tree = \<lparr>base = Map.empty, actions = []\<rparr>"

definition staged_tree :: tree where
  "staged_tree =
     \<lparr>base = Map.empty, actions = [Create ''a.txt'' ''1'', Overwrite ''a.txt'' ''2'']\<rparr>"

definition sample_workspace :: workspace_definition where
  "sample_workspace =
     \<lparr>projects =
        [(''app'', \<lparr>root = [], extensions = [(''projectType'', JStr ''application'')],
                   targets = [(''build'', \<lparr>builder = ''browser'', target_options = []\<rparr>)]\<rparr>),
         (''lib'', \<lparr>root = ''projects/lib'', extensions = [(''projectType'', JStr ''library'')],
                   targets = [(''build'', \<lparr>builder = ''ng-packagr'', target_options = []\<rparr>)]\<rparr>)]\<rparr>"

definition sample_continue ::
  "web_worker_options \<Rightarrow> workspace_definition \<Rightarrow> project_definition \<Rightarrow> target_definition
     \<Rightarrow> tree \<Rightarrow> js_error option \<times> tree" where
  "sample_continue options ws pr tg host =
     (None, stage (Create (''src/app/'' @ name options @ ''.worker.ts'') ''addEventListener'') host)"

definition worker_options :: "string option \<Rightarrow> string option \<Rightarrow> web_worker_options" where
  "worker_options pn tn = \<lparr>project = pn, target = tn, path = None, name = ''w'', snippet = True\<rparr>"

text \<open>
  \<open>getWorkspace\<close> on a host whose workspace file has no \<open>version\<close> entry: the workspace
  reader rejects with an \<open>Error\<close>.
\<close>

definition versionless_workspace :: "tree \<Rightarrow> js_error + workspace_definition" where
  "versionless_workspace host = Inl (plain_error ''Unknown format - version specifier not found.'')"

section \<open>Properties of NodeModuleJobRegistry\<close>

subsection \<open>Splitting the job name\<close>

lemma split_hash_not_Nil: "split_hash s \<noteq> []"
  by (induction s) (auto split: list.splits)

lemma hd_split_hash: "hd (split_hash s) = takeWhile (\<lambda>c. c \<noteq> CHR ''#'') s"
  by (induction s) (auto split: list.splits simp: split_hash_not_Nil)

lemma tl_split_hash:
  "tl (split_hash s) =
     (if CHR ''#'' \<in> set s then split_hash (tl (dropWhile (\<lambda>c. c \<noteq> CHR ''#'') s)) else [])"
  by (induction s) (auto split: list.splits simp: split_hash_not_Nil)

lemma moduleName_eq: "moduleName nm = takeWhile (\<lambda>c. c \<noteq> CHR ''#'') nm"
  using hd_split_hash[of nm] split_hash_not_Nil[of nm]
  by (cases "split_hash nm") (auto simp: moduleName_def split_limit2_def)

lemma exportName_eq:
  "exportName nm =
     (if CHR ''#'' \<in> set nm
      then Some (takeWhile (\<lambda>c. c \<noteq> CHR ''#'') (tl (dropWhile (\<lambda>c. c \<noteq> CHR ''#'') nm)))
      else None)"
proof -
  obtain m r where sp: "split_hash nm = m # r"
    using split_hash_not_Nil[of nm] by (cases "split_hash nm") auto
  have r: "r = (if CHR ''#'' \<in> set nm
                then split_hash (tl (dropWhile (\<lambda>c. c \<noteq> CHR ''#'') nm)) else [])"
    using tl_split_hash[of nm] sp by simp
  show ?thesis
  proof (cases "CHR ''#'' \<in> set nm")
    case True
    let ?rest = "tl (dropWhile (\<lambda>c. c \<noteq> CHR ''#'') nm)"
    obtain e r' where r': "split_hash ?rest = e # r'"
      using split_hash_not_Nil[of ?rest] by (cases "split_hash ?rest") auto
    have "e = takeWhile (\<lambda>c. c \<noteq> CHR ''#'') ?rest"
      using hd_split_hash[of ?rest] r' by simp
    then show ?thesis using True sp r r'
      by (simp add: exportName_def split_limit2_def)
  next
    case False
    then show ?thesis using sp r by (simp add: exportName_def split_limit2_def)
  qed
qed

lemma sample_names:
  "moduleName ''jobs/none#sum'' = ''jobs/none''"
  "moduleName ''sealed/internal#sum'' = ''sealed/internal''"
  "moduleName ''jobs/add#sum'' = ''jobs/add''"
  "exportKey ''jobs/add#sum'' = ''sum''"
  "moduleName ''jobs/add#nosuch'' = ''jobs/add''"
  "exportKey ''jobs/add#nosuch'' = ''nosuch''"
  "moduleName ''jobs/add'' = ''jobs/add''"
  "exportKey ''jobs/add'' = ''default''"
  "moduleName ''jobs/explicit'' = ''jobs/explicit''"
  "exportKey ''jobs/explicit'' = ''default''"
  "moduleName ''jobs/config'' = ''jobs/config''"
  "exportKey ''jobs/config'' = ''default''"
  "moduleName ''jobs/nothing'' = ''jobs/nothing''"
  "exportKey ''jobs/nothing'' = ''default''"
  "moduleName ''jobs/add#sum#x'' = ''jobs/add''"
  "exportKey ''jobs/add#sum#x'' = ''sum''"
  by (simp_all add: moduleName_def exportKey_def exportName_def split_limit2_def)

subsection \<open>The outcomes of \<open>get\<close>\<close>

lemma and_then_Returns:
  "and_then m f = Returns y \<longleftrightarrow> (\<exists>x. m = Returns x \<and> f x = Returns y)"
  by (cases m) auto

lemma and_then_Throws:
  "and_then m f = Throws e \<longleftrightarrow> m = Throws e \<or> (\<exists>x. m = Returns x \<and> f x = Throws e)"
  by (cases m) auto

lemma resolve_Returns:
  "resolve env n = Returns r \<longleftrightarrow>
     (\<exists>p. require_resolve env n = Returns p \<and> r = Some p) \<or>
     (\<exists>e. require_resolve env n = Throws e \<and> code e = Some ''MODULE_NOT_FOUND'' \<and> r = None)"
  by (auto simp: resolve_def split: outcome.splits if_splits)

lemma resolve_Throws:
  "resolve env n = Throws e \<longleftrightarrow>
     require_resolve env n = Throws e \<and> code e \<noteq> Some ''MODULE_NOT_FOUND''"
  by (auto simp: resolve_def split: outcome.splits if_splits)

lemma get_prop_Returns:
  "get_prop env v k = Returns x \<longleftrightarrow> \<not> nullish v \<and> js_get env v k = Returns x"
  by (simp add: get_prop_def)

lemma truthy_not_nullish: "truthy v \<Longrightarrow> \<not> nullish v"
  by (cases v) auto

lemma job_handler_eq:
  "(\<lparr>bound = b, jobDescription = d\<rparr> = h) \<longleftrightarrow> bound h = b \<and> jobDescription h = d"
  by (cases h) auto

lemma get_resolved:
  "require_resolve env (moduleName nm) = Returns rp \<Longrightarrow> rp \<noteq> [] \<Longrightarrow>
   get env nm =
     and_then (require env rp) (\<lambda>pkg.
     and_then (get_prop env pkg (exportKey nm)) (\<lambda>handler.
     if \<not> truthy handler then Returns None else finish env pkg handler))"
  unfolding finish_def by (simp add: get_def resolve_def)

lemma get_cases [case_names not_found rethrow unresolved empty_path load_throws load_unknown
    null_module read_throws read_unknown falsy truthy]:
  obtains
    e where "require_resolve env (moduleName nm) = Throws e" "code e = Some ''MODULE_NOT_FOUND''"
      "get env nm = Returns None"
  | e where "require_resolve env (moduleName nm) = Throws e" "code e \<noteq> Some ''MODULE_NOT_FOUND''"
      "get env nm = Throws e"
  | "require_resolve env (moduleName nm) = Unknown" "get env nm = Unknown"
  | "require_resolve env (moduleName nm) = Returns []" "get env nm = Returns None"
  | rp e where "require_resolve env (moduleName nm) = Returns rp" "rp \<noteq> []"
      "require env rp = Throws e" "get env nm = Throws e"
  | rp where "require_resolve env (moduleName nm) = Returns rp" "rp \<noteq> []"
      "require env rp = Unknown" "get env nm = Unknown"
  | rp pkg where "require_resolve env (moduleName nm) = Returns rp" "rp \<noteq> []"
      "require env rp = Returns pkg" "nullish pkg"
      "get env nm = Throws (type_error ''Cannot read properties of undefined or null'')"
  | rp pkg e where "require_resolve env (moduleName nm) = Returns rp" "rp \<noteq> []"
      "require env rp = Returns pkg" "\<not> nullish pkg"
      "js_get env pkg (exportKey nm) = Throws e" "get env nm = Throws e"
  | rp pkg where "require_resolve env (moduleName nm) = Returns rp" "rp \<noteq> []"
      "require env rp = Returns pkg" "\<not> nullish pkg"
      "js_get env pkg (exportKey nm) = Unknown" "get env nm = Unknown"
  | rp pkg handler where "require_resolve env (moduleName nm) = Returns rp" "rp \<noteq> []"
      "require env rp = Returns pkg" "\<not> nullish pkg"
      "js_get env pkg (exportKey nm) = Returns handler" "\<not> truthy handler"
      "get env nm = Returns None"
  | rp pkg handler where "require_resolve env (moduleName nm) = Returns rp" "rp \<noteq> []"
      "require env rp = Returns pkg" "\<not> nullish pkg"
      "js_get env pkg (exportKey nm) = Returns handler" "truthy handler"
      "get env nm = finish env pkg handler"
proof (cases "require_resolve env (moduleName nm)")
  case (Throws e)
  then show thesis
    by (cases "code e = Some ''MODULE_NOT_FOUND''")
       (auto simp: get_def resolve_def intro: that(1) that(2))
next
  case Unknown
  then show thesis by (auto simp: get_def resolve_def intro: that(3))
next
  case (Returns rp)
  show thesis
  proof (cases "rp = []")
    case True
    with Returns show thesis by (auto simp: get_def resolve_def intro: that(4))
  next
    case False
    note r = get_resolved[OF Returns False]
    show thesis
    proof (cases "require env rp")
      case (Throws e)
      with Returns False show thesis by (auto simp: r intro: that(5))
    next
      case Unknown
      with Returns False show thesis by (auto simp: r intro: that(6))
    next
      case pkg: (Returns pkg)
      show thesis
      proof (cases "nullish pkg")
        case True
        with Returns False pkg show thesis
          by (auto simp: r get_prop_def intro: that(7))
      next
        case nn: False
        show thesis
        proof (cases "js_get env pkg (exportKey nm)")
          case (Throws e)
          with Returns False pkg nn show thesis
            by (auto simp: r get_prop_def intro: that(8))
        next
          case Unknown
          with Returns False pkg nn show thesis
            by (auto simp: r get_prop_def intro: that(9))
        next
          case h: (Returns handler)
          show thesis
          proof (cases "truthy handler")
            case True
            with Returns False pkg nn h show thesis
              by (auto simp: r get_prop_def intro: that(11))
          next
            case f: False
            with Returns False pkg nn h show thesis
              by (auto simp: r get_prop_def intro: that(10))
          qed
        qed
      qed
    qed
  qed
qed

lemma finish_Some:
  "finish env pkg handler = Returns r \<longleftrightarrow>
     (\<exists>h. r = Some h \<and> describe env pkg handler = Returns (jobDescription h) \<and>
        bind_handler env handler = Returns (bound h) \<and>
        assign_description env (bound h) = Returns ())"
proof (cases "describe env pkg handler")
  case (Returns d)
  show ?thesis
  proof (cases "bind_handler env handler")
    case (Returns b)
    show ?thesis
    proof (cases "assign_description env b")
      case (Returns u)
      with \<open>describe env pkg handler = Returns d\<close> \<open>bind_handler env handler = Returns b\<close>
      show ?thesis
        by (cases r) (auto simp: finish_def job_handler_eq[symmetric])
    qed (use \<open>describe env pkg handler = Returns d\<close> \<open>bind_handler env handler = Returns b\<close>
         in \<open>auto simp: finish_def\<close>)
  qed (use \<open>describe env pkg handler = Returns d\<close> in \<open>auto simp: finish_def\<close>)
qed (auto simp: finish_def)

lemma finish_Throws:
  "finish env pkg handler = Throws e \<longleftrightarrow>
     describe env pkg handler = Throws e \<or>
     (\<exists>d. describe env pkg handler = Returns d \<and>
        (bind_handler env handler = Throws e \<or>
         (\<exists>b. bind_handler env handler = Returns b \<and> assign_description env b = Throws e)))"
  by (cases "describe env pkg handler"; cases "bind_handler env handler")
     (auto simp: finish_def and_then_Throws)

lemma get_Some_iff:
  "get env nm = Returns (Some h) \<longleftrightarrow>
     (\<exists>rp pkg handler. require_resolve env (moduleName nm) = Returns rp \<and> rp \<noteq> [] \<and>
        require env rp = Returns pkg \<and> \<not> nullish pkg \<and>
        js_get env pkg (exportKey nm) = Returns handler \<and> truthy handler \<and>
        describe env pkg handler = Returns (jobDescription h) \<and>
        bind_handler env handler = Returns (bound h) \<and>
        assign_description env (bound h) = Returns ())"
  by (cases env nm rule: get_cases) (auto simp: finish_Some)



lemma schema_field_Returns:
  "schema_field env pkg handler k = Returns x \<longleftrightarrow>
     (\<exists>a b. \<not> nullish pkg \<and> js_get env pkg k = Returns a \<and>
            \<not> nullish handler \<and> js_get env handler k = Returns b \<and> x = getValue env [a, b])"
  by (auto simp: schema_field_def and_then_Returns get_prop_Returns)

lemma describe_Returns:
  "describe env pkg handler = Returns d \<longleftrightarrow>
     (\<exists>a i out c. schema_field env pkg handler ''argument'' = Returns a \<and>
        schema_field env pkg handler ''input'' = Returns i \<and>
        schema_field env pkg handler ''output'' = Returns out \<and>
        schema_field env pkg handler ''channels'' = Returns c \<and>
        d = \<lparr>argument = a, input = i, output_schema = out, channels = c\<rparr>)"
  unfolding describe_def and_then_Returns by auto

lemma describe_succeeds:
  "(\<exists>d. describe env pkg handler = Returns d) \<longleftrightarrow>
     \<not> nullish pkg \<and> \<not> nullish handler \<and>
     (\<forall>k \<in> set [''argument'', ''input'', ''output'', ''channels''].
        (\<exists>a. js_get env pkg k = Returns a) \<and> (\<exists>b. js_get env handler k = Returns b))"
  unfolding describe_Returns schema_field_Returns by auto

lemma bind_handler_Returns:
  "bind_handler env handler = Returns b \<longleftrightarrow>
     (\<exists>f. \<not> nullish handler \<and> js_get env handler ''bind'' = Returns f \<and> callable f \<and>
          js_call env f handler [JUndefined] = Returns b)"
  by (auto simp: bind_handler_def and_then_Returns get_prop_Returns split: if_splits)

lemma assign_description_Returns:
  "assign_description env b = Returns u \<longleftrightarrow> \<not> nullish b \<and> js_assign env b = Returns ()"
  by (simp add: assign_description_def)


lemma get_add: "get sample_env ''jobs/add'' = Returns (Some add_handler)"
  by (simp add: get_def resolve_def sample_names sample_env_def sample_resolve_def
        sample_require_def add_module_def get_prop_def describe_def schema_field_def
        getValue_def js_or_def isJsonSchema_std_def bind_handler_def function_member_def
        sample_call_def assign_description_def add_handler_def object_prototype_members_def)

text \<open>
  A description that is extended keeps every answer of \<open>get\<close> that it gives: what is
  computed from a description holds in each environment that agrees with it.
\<close>

lemma and_then_agrees:
  "agrees m m' \<Longrightarrow> (\<And>x. agrees (f x) (f' x)) \<Longrightarrow> agrees (and_then m f) (and_then m' f')"
proof (cases m)
  case (Returns x)
  assume "agrees m m'" and f: "\<And>x. agrees (f x) (f' x)"
  with Returns have "m' = Returns x"
    by (simp add: agrees_def)
  with Returns f[of x] show ?thesis
    by simp
qed (auto simp: agrees_def)

lemma agrees_refl: "agrees a a"
  by (simp add: agrees_def)

lemma get_prop_agrees: "extends d env \<Longrightarrow> agrees (get_prop d v k) (get_prop env v k)"
  by (simp add: get_prop_def extends_def agrees_refl)

lemma getValue_extends: "extends d env \<Longrightarrow> getValue d xs = getValue env xs"
  by (simp add: getValue_def extends_def)

lemma schema_field_agrees:
  "extends d env \<Longrightarrow> agrees (schema_field d pkg handler k) (schema_field env pkg handler k)"
  unfolding schema_field_def
  by (intro and_then_agrees get_prop_agrees) (simp_all add: getValue_extends agrees_refl)

lemma describe_agrees:
  "extends d env \<Longrightarrow> agrees (describe d pkg handler) (describe env pkg handler)"
  unfolding describe_def
  by (intro and_then_agrees schema_field_agrees) (simp_all add: agrees_refl)

lemma bind_handler_agrees:
  "extends d env \<Longrightarrow> agrees (bind_handler d handler) (bind_handler env handler)"
  unfolding bind_handler_def
  by (intro and_then_agrees get_prop_agrees) (simp_all add: extends_def agrees_refl)

lemma assign_description_agrees:
  "extends d env \<Longrightarrow> agrees (assign_description d b) (assign_description env b)"
  by (simp add: assign_description_def extends_def agrees_refl)

lemma resolve_agrees: "extends d env \<Longrightarrow> agrees (resolve d n) (resolve env n)"
proof -
  assume "extends d env"
  then have "agrees (require_resolve d n) (require_resolve env n)"
    by (simp add: extends_def)
  then show ?thesis
    by (auto simp: agrees_def resolve_def)
qed

lemma get_extends: "extends d env \<Longrightarrow> agrees (get d nm) (get env nm)"
proof -
  assume e: "extends d env"
  then have r: "\<And>p. agrees (require d p) (require env p)"
    by (simp add: extends_def)
  show ?thesis
    unfolding get_def
    by (intro and_then_agrees resolve_agrees[OF e])
       (auto split: option.splits
             intro!: and_then_agrees r get_prop_agrees[OF e] describe_agrees[OF e]
                     bind_handler_agrees[OF e] assign_description_agrees[OF e] agrees_refl)
qed




text \<open>
  Against C2 as stated: for the name \<open>jobs/add#nosuch\<close>, an installation where the module
  path does not resolve and one where the module is found but has no export \<open>nosuch\<close> give
  the caller the same value, \<open>null\<close>.
\<close>

theorem get_null_for_both_counterexample:
  "require_resolve bare_env (moduleName ''jobs/add#nosuch'') = Throws module_not_found \<and>
   require_resolve sample_env (moduleName ''jobs/add#nosuch'') = Returns ''/node_modules/jobs/add.js'' \<and>
   require sample_env ''/node_modules/jobs/add.js'' = Returns add_module \<and>
   js_get sample_env add_module (exportKey ''jobs/add#nosuch'') = Returns JUndefined \<and>
   get bare_env ''jobs/add#nosuch'' = Returns None \<and>
   get sample_env ''jobs/add#nosuch'' = Returns None"
  by (simp add: get_def resolve_def sample_names sample_env_def bare_env_def sample_resolve_def
        sample_require_def add_module_def get_prop_def module_not_found_def
        object_prototype_members_def)

text \<open>
  C2, amended. For every name, a module path that does not resolve (MODULE_NOT_FOUND),
  and a module path that resolves to a module that loads, is neither \<open>null\<close> nor
  \<open>undefined\<close>, and gives \<open>undefined\<close> when the requested export is read, are both
  answered with the same not-found signal \<open>null\<close>.
\<close>

theorem get_not_found_is_null:
  assumes "(\<exists>e. require_resolve env (moduleName nm) = Throws e \<and> code e = Some ''MODULE_NOT_FOUND'')
         \<or> (\<exists>rp pkg. require_resolve env (moduleName nm) = Returns rp \<and>
               require env rp = Returns pkg \<and> \<not> nullish pkg \<and>
               js_get env pkg (exportKey nm) = Returns JUndefined)"
  shows "get env nm = Returns None"
  using assms
  by (cases env nm rule: get_cases) auto

theorem get_not_found_is_null_witness:
  "get bare_env ''jobs/add#nosuch'' = Returns None \<and>
   get sample_env ''jobs/add#nosuch'' = Returns None"
proof -
  have a: "\<exists>e. require_resolve bare_env (moduleName ''jobs/add#nosuch'') = Throws e \<and>
             code e = Some ''MODULE_NOT_FOUND''"
    by (simp add: sample_names bare_env_def module_not_found_def)
  have b: "\<exists>rp pkg. require_resolve sample_env (moduleName ''jobs/add#nosuch'') = Returns rp \<and>
             require sample_env rp = Returns pkg \<and> \<not> nullish pkg \<and>
             js_get sample_env pkg (exportKey ''jobs/add#nosuch'') = Returns JUndefined"
    by (simp add: sample_names sample_env_def sample_resolve_def sample_require_def add_module_def
          object_prototype_members_def)
  show ?thesis
    using get_not_found_is_null[of bare_env "''jobs/add#nosuch''"]
      get_not_found_is_null[of sample_env "''jobs/add#nosuch''"] a b
    by blast
qed

subsection \<open>The schemas attached to a handler\<close>

lemma getValue_absent:
  "\<not> isJsonSchema env a \<Longrightarrow> \<not> isJsonSchema env b \<Longrightarrow> getValue env [a, b] = JBool True"
  by (simp add: getValue_def js_or_def)

lemma getValue_explicit_true:
  "isJsonSchema env (JBool True) \<Longrightarrow> getValue env [JBool True, b] = JBool True"
  by (simp add: getValue_def js_or_def)

text \<open>
  Against C3 as stated: the module \<open>jobs/add\<close> declares no schema, neither does its
  default handler; the module \<open>jobs/explicit\<close> declares each schema as \<open>true\<close>. The
  handlers \<open>get\<close> returns for the two carry the same job description.
\<close>

theorem get_absent_schema_counterexample:
  "js_get sample_env add_module ''argument'' = Returns JUndefined \<and>
   js_get sample_env (JFun 0 []) ''argument'' = Returns JUndefined \<and>
   js_get sample_env explicit_module ''argument'' = Returns (JBool True) \<and>
   get sample_env ''jobs/add'' =
     Returns (Some \<lparr>bound = JBound (JFun 0 []),
                    jobDescription = \<lparr>argument = JBool True, input = JBool True,
                                       output_schema = JBool True, channels = JBool True\<rparr>\<rparr>) \<and>
   get sample_env ''jobs/explicit'' = get sample_env ''jobs/add''"
  by (simp add: get_def resolve_def sample_names sample_env_def sample_resolve_def
        sample_require_def add_module_def explicit_module_def get_prop_def describe_def
        schema_field_def getValue_def js_or_def isJsonSchema_std_def bind_handler_def
        function_member_def sample_call_def assign_description_def
        object_prototype_members_def)

text \<open>
  C3, amended. For every handler returned by \<open>get\<close> and each of the schemas argument,
  input, output and channels: when neither the module nor the handler declares a JSON
  schema for it, the attached schema is \<open>true\<close>, the same value that is attached when the
  module declares the schema \<open>true\<close>.
\<close>

theorem get_absent_schema_is_true:
  assumes "get env nm = Returns (Some h)"
    and "require_resolve env (moduleName nm) = Returns rp"
    and "require env rp = Returns pkg"
  shows
    "\<exists>handler. js_get env pkg (exportKey nm) = Returns handler \<and>
     (\<forall>a b. js_get env pkg ''argument'' = Returns a \<and> js_get env handler ''argument'' = Returns b \<and>
        \<not> isJsonSchema env a \<and> \<not> isJsonSchema env b
        \<longrightarrow> argument (jobDescription h) = JBool True) \<and>
     (\<forall>a b. js_get env pkg ''input'' = Returns a \<and> js_get env handler ''input'' = Returns b \<and>
        \<not> isJsonSchema env a \<and> \<not> isJsonSchema env b
        \<longrightarrow> input (jobDescription h) = JBool True) \<and>
     (\<forall>a b. js_get env pkg ''output'' = Returns a \<and> js_get env handler ''output'' = Returns b \<and>
        \<not> isJsonSchema env a \<and> \<not> isJsonSchema env b
        \<longrightarrow> output_schema (jobDescription h) = JBool True) \<and>
     (\<forall>a b. js_get env pkg ''channels'' = Returns a \<and> js_get env handler ''channels'' = Returns b \<and>
        \<not> isJsonSchema env a \<and> \<not> isJsonSchema env b
        \<longrightarrow> channels (jobDescription h) = JBool True) \<and>
     (isJsonSchema env (JBool True) \<and> js_get env pkg ''argument'' = Returns (JBool True)
        \<longrightarrow> argument (jobDescription h) = JBool True) \<and>
     (isJsonSchema env (JBool True) \<and> js_get env pkg ''input'' = Returns (JBool True)
        \<longrightarrow> input (jobDescription h) = JBool True) \<and>
     (isJsonSchema env (JBool True) \<and> js_get env pkg ''output'' = Returns (JBool True)
        \<longrightarrow> output_schema (jobDescription h) = JBool True) \<and>
     (isJsonSchema env (JBool True) \<and> js_get env pkg ''channels'' = Returns (JBool True)
        \<longrightarrow> channels (jobDescription h) = JBool True)"
proof -
  from assms(1) obtain rp' pkg' handler where
    "require_resolve env (moduleName nm) = Returns rp'" "require env rp' = Returns pkg'"
    "js_get env pkg' (exportKey nm) = Returns handler"
    "describe env pkg' handler = Returns (jobDescription h)"
    unfolding get_Some_iff by blast
  with assms(2,3) have hd: "js_get env pkg (exportKey nm) = Returns handler"
    and "describe env pkg handler = Returns (jobDescription h)"
    by simp_all
  then obtain a i out c where
    f: "schema_field env pkg handler ''argument'' = Returns a"
       "schema_field env pkg handler ''input'' = Returns i"
       "schema_field env pkg handler ''output'' = Returns out"
       "schema_field env pkg handler ''channels'' = Returns c"
    and d: "jobDescription h = \<lparr>argument = a, input = i, output_schema = out, channels = c\<rparr>"
    unfolding describe_Returns by blast
  have "argument (jobDescription h) = a" "input (jobDescription h) = i"
    "output_schema (jobDescription h) = out" "channels (jobDescription h) = c"
    by (simp_all add: d)
  with f have
    "(\<forall>a b. js_get env pkg ''argument'' = Returns a \<and> js_get env handler ''argument'' = Returns b \<and>
        \<not> isJsonSchema env a \<and> \<not> isJsonSchema env b
        \<longrightarrow> argument (jobDescription h) = JBool True) \<and>
     (\<forall>a b. js_get env pkg ''input'' = Returns a \<and> js_get env handler ''input'' = Returns b \<and>
        \<not> isJsonSchema env a \<and> \<not> isJsonSchema env b
        \<longrightarrow> input (jobDescription h) = JBool True) \<and>
     (\<forall>a b. js_get env pkg ''output'' = Returns a \<and> js_get env handler ''output'' = Returns b \<and>
        \<not> isJsonSchema env a \<and> \<not> isJsonSchema env b
        \<longrightarrow> output_schema (jobDescription h) = JBool True) \<and>
     (\<forall>a b. js_get env pkg ''channels'' = Returns a \<and> js_get env handler ''channels'' = Returns b \<and>
        \<not> isJsonSchema env a \<and> \<not> isJsonSchema env b
        \<longrightarrow> channels (jobDescription h) = JBool True) \<and>
     (isJsonSchema env (JBool True) \<and> js_get env pkg ''argument'' = Returns (JBool True)
        \<longrightarrow> argument (jobDescription h) = JBool True) \<and>
     (isJsonSchema env (JBool True) \<and> js_get env pkg ''input'' = Returns (JBool True)
        \<longrightarrow> input (jobDescription h) = JBool True) \<and>
     (isJsonSchema env (JBool True) \<and> js_get env pkg ''output'' = Returns (JBool True)
        \<longrightarrow> output_schema (jobDescription h) = JBool True) \<and>
     (isJsonSchema env (JBool True) \<and> js_get env pkg ''channels'' = Returns (JBool True)
        \<longrightarrow> channels (jobDescription h) = JBool True)"
    unfolding schema_field_Returns
    by (auto simp: getValue_absent getValue_explicit_true)
  with hd show ?thesis
    by (intro exI[of _ handler] conjI) simp_all
qed

theorem get_absent_schema_is_true_witness:
  "argument (jobDescription add_handler) = JBool True \<and>
   input (jobDescription add_handler) = JBool True \<and>
   output_schema (jobDescription add_handler) = JBool True \<and>
   channels (jobDescription add_handler) = JBool True"
proof -
  have r: "require_resolve sample_env (moduleName ''jobs/add'') = Returns ''/node_modules/jobs/add.js''"
    "require sample_env ''/node_modules/jobs/add.js'' = Returns add_module"
    by (simp_all add: sample_names sample_env_def sample_resolve_def sample_require_def)
  have k: "js_get sample_env add_module (exportKey ''jobs/add'') = Returns (JFun 0 [])"
    by (simp add: sample_names sample_env_def add_module_def)
  have g: "js_get sample_env add_module ''argument'' = Returns JUndefined"
    "js_get sample_env add_module ''input'' = Returns JUndefined"
    "js_get sample_env add_module ''output'' = Returns JUndefined"
    "js_get sample_env add_module ''channels'' = Returns JUndefined"
    "js_get sample_env (JFun 0 []) ''argument'' = Returns JUndefined"
    "js_get sample_env (JFun 0 []) ''input'' = Returns JUndefined"
    "js_get sample_env (JFun 0 []) ''output'' = Returns JUndefined"
    "js_get sample_env (JFun 0 []) ''channels'' = Returns JUndefined"
    "\<not> isJsonSchema sample_env JUndefined"
    by (simp_all add: sample_env_def add_module_def object_prototype_members_def
          function_member_def isJsonSchema_std_def)
  from get_absent_schema_is_true[OF get_add r] obtain handler where
    hd: "js_get sample_env add_module (exportKey ''jobs/add'') = Returns handler"
    and c1: "\<forall>a b. js_get sample_env add_module ''argument'' = Returns a \<and>
        js_get sample_env handler ''argument'' = Returns b \<and>
        \<not> isJsonSchema sample_env a \<and> \<not> isJsonSchema sample_env b
        \<longrightarrow> argument (jobDescription add_handler) = JBool True"
    and c2: "\<forall>a b. js_get sample_env add_module ''input'' = Returns a \<and>
        js_get sample_env handler ''input'' = Returns b \<and>
        \<not> isJsonSchema sample_env a \<and> \<not> isJsonSchema sample_env b
        \<longrightarrow> input (jobDescription add_handler) = JBool True"
    and c3: "\<forall>a b. js_get sample_env add_module ''output'' = Returns a \<and>
        js_get sample_env handler ''output'' = Returns b \<and>
        \<not> isJsonSchema sample_env a \<and> \<not> isJsonSchema sample_env b
        \<longrightarrow> output_schema (jobDescription add_handler) = JBool True"
    and c4: "\<forall>a b. js_get sample_env add_module ''channels'' = Returns a \<and>
        js_get sample_env handler ''channels'' = Returns b \<and>
        \<not> isJsonSchema sample_env a \<and> \<not> isJsonSchema sample_env b
        \<longrightarrow> channels (jobDescription add_handler) = JBool True"
    by (elim exE conjE)
  from hd k have e: "handler = JFun 0 []"
    by simp
  from c1 g have 1: "argument (jobDescription add_handler) = JBool True"
    unfolding e by simp
  from c2 g have 2: "input (jobDescription add_handler) = JBool True"
    unfolding e by simp
  from c3 g have 3: "output_schema (jobDescription add_handler) = JBool True"
    unfolding e by simp
  from c4 g have 4: "channels (jobDescription add_handler) = JBool True"
    unfolding e by simp
  from 1 2 3 4 show ?thesis
    by simp
qed

subsection \<open>When a handler is returned\<close>

text \<open>
  Against C9 as stated: the module path of \<open>jobs/config\<close> resolves and the default export
  of the module is an object, a truthy value, that has no member \<open>bind\<close>; \<open>get\<close> returns
  no handler, it throws the TypeError of the call \<open>handler.bind(undefined)\<close>.
\<close>

theorem truthy_export_without_bind_counterexample:
  "require_resolve sample_env (moduleName ''jobs/config'') = Returns ''/node_modules/jobs/config.js'' \<and>
   require sample_env ''/node_modules/jobs/config.js'' = Returns config_module \<and>
   js_get sample_env config_module (exportKey ''jobs/config'') = Returns (JObj [(''retries'', JNum 3)]) \<and>
   truthy (JObj [(''retries'', JNum 3)]) \<and>
   js_get sample_env (JObj [(''retries'', JNum 3)]) ''bind'' = Returns JUndefined \<and>
   get sample_env ''jobs/config'' = Throws (type_error ''handler.bind is not a function'')"
  by (simp add: get_def resolve_def sample_names sample_env_def sample_resolve_def
        sample_require_def config_module_def get_prop_def describe_def schema_field_def
        bind_handler_def object_prototype_members_def)

text \<open>
  C9, amended. The job name is cut at \<open>#\<close>: the module path is the text before the first
  \<open>#\<close>, the export name is the text between the first and the second \<open>#\<close> and is absent
  when the name has no \<open>#\<close>; when the export name is absent or empty the export \<open>default\<close>
  is used. A handler is returned if and only if the module path resolves to a non-empty
  path, the module loads to a value that is neither \<open>null\<close> nor \<open>undefined\<close>, the chosen
  export, read from it as a property, is truthy, the four schema properties are read from
  the module and from the export without an error, the member \<open>bind\<close> of the export is a
  function, its call on the export with the argument \<open>undefined\<close> returns a value that is
  neither \<open>null\<close> nor \<open>undefined\<close>, and that value takes the property \<open>jobDescription\<close>.
\<close>

theorem get_returns_handler_iff:
  "moduleName nm = takeWhile (\<lambda>c. c \<noteq> CHR ''#'') nm \<and>
   exportName nm =
     (if CHR ''#'' \<in> set nm
      then Some (takeWhile (\<lambda>c. c \<noteq> CHR ''#'') (tl (dropWhile (\<lambda>c. c \<noteq> CHR ''#'') nm)))
      else None) \<and>
   exportKey nm =
     (if exportName nm = None \<or> exportName nm = Some [] then ''default''
      else the (exportName nm)) \<and>
   ((\<exists>h. get env nm = Returns (Some h)) \<longleftrightarrow>
    (\<exists>rp pkg handler f b.
       require_resolve env (moduleName nm) = Returns rp \<and> rp \<noteq> [] \<and>
       require env rp = Returns pkg \<and> \<not> nullish pkg \<and>
       js_get env pkg (exportKey nm) = Returns handler \<and> truthy handler \<and>
       (\<forall>k \<in> set [''argument'', ''input'', ''output'', ''channels''].
          (\<exists>x. js_get env pkg k = Returns x) \<and> (\<exists>y. js_get env handler k = Returns y)) \<and>
       js_get env handler ''bind'' = Returns f \<and> callable f \<and>
       js_call env f handler [JUndefined] = Returns b \<and> \<not> nullish b \<and>
       js_assign env b = Returns ()))"
proof (intro conjI)
  show "moduleName nm = takeWhile (\<lambda>c. c \<noteq> CHR ''#'') nm"
    by (rule moduleName_eq)
  show "exportName nm =
     (if CHR ''#'' \<in> set nm
      then Some (takeWhile (\<lambda>c. c \<noteq> CHR ''#'') (tl (dropWhile (\<lambda>c. c \<noteq> CHR ''#'') nm)))
      else None)"
    by (rule exportName_eq)
  show "exportKey nm =
     (if exportName nm = None \<or> exportName nm = Some [] then ''default''
      else the (exportName nm))"
    by (auto simp: exportKey_def split: option.splits)
  have "(\<exists>h. get env nm = Returns (Some h)) \<longleftrightarrow>
    (\<exists>rp pkg handler. require_resolve env (moduleName nm) = Returns rp \<and> rp \<noteq> [] \<and>
       require env rp = Returns pkg \<and> \<not> nullish pkg \<and>
       js_get env pkg (exportKey nm) = Returns handler \<and> truthy handler \<and>
       (\<exists>d. describe env pkg handler = Returns d) \<and>
       (\<exists>b. bind_handler env handler = Returns b \<and> assign_description env b = Returns ()))"
    (is "?L \<longleftrightarrow> ?M")
  proof
    assume ?L
    then show ?M unfolding get_Some_iff by blast
  next
    assume ?M
    then obtain rp pkg handler d b where
      "require_resolve env (moduleName nm) = Returns rp" "rp \<noteq> []"
      "require env rp = Returns pkg" "\<not> nullish pkg"
      "js_get env pkg (exportKey nm) = Returns handler" "truthy handler"
      "describe env pkg handler = Returns d" "bind_handler env handler = Returns b"
      "assign_description env b = Returns ()"
      by blast
    then have "get env nm = Returns (Some \<lparr>bound = b, jobDescription = d\<rparr>)"
      unfolding get_Some_iff by auto
    then show ?L ..
  qed
  also have "?M \<longleftrightarrow>
    (\<exists>rp pkg handler f b.
       require_resolve env (moduleName nm) = Returns rp \<and> rp \<noteq> [] \<and>
       require env rp = Returns pkg \<and> \<not> nullish pkg \<and>
       js_get env pkg (exportKey nm) = Returns handler \<and> truthy handler \<and>
       (\<forall>k \<in> set [''argument'', ''input'', ''output'', ''channels''].
          (\<exists>x. js_get env pkg k = Returns x) \<and> (\<exists>y. js_get env handler k = Returns y)) \<and>
       js_get env handler ''bind'' = Returns f \<and> callable f \<and>
       js_call env f handler [JUndefined] = Returns b \<and> \<not> nullish b \<and>
       js_assign env b = Returns ())"
    (is "_ \<longleftrightarrow> ?R")
  proof
    assume ?M
    then show ?R
      unfolding describe_succeeds bind_handler_Returns assign_description_Returns
      by blast
  next
    assume ?R
    then obtain rp pkg handler f b where
      r: "require_resolve env (moduleName nm) = Returns rp" "rp \<noteq> []"
         "require env rp = Returns pkg" "\<not> nullish pkg"
         "js_get env pkg (exportKey nm) = Returns handler" "truthy handler"
      and k: "\<forall>k \<in> set [''argument'', ''input'', ''output'', ''channels''].
          (\<exists>x. js_get env pkg k = Returns x) \<and> (\<exists>y. js_get env handler k = Returns y)"
      and b: "js_get env handler ''bind'' = Returns f" "callable f"
         "js_call env f handler [JUndefined] = Returns b" "\<not> nullish b"
         "js_assign env b = Returns ()"
      by blast
    from r(6) have n: "\<not> nullish handler"
      by (rule truthy_not_nullish)
    from r(4) n k have d: "\<exists>d. describe env pkg handler = Returns d"
      unfolding describe_succeeds by simp
    from n b have "bind_handler env handler = Returns b" "assign_description env b = Returns ()"
      unfolding bind_handler_Returns assign_description_Returns by auto
    with r d show ?M
      by blast
  qed
  finally show "(\<exists>h. get env nm = Returns (Some h)) \<longleftrightarrow>
    (\<exists>rp pkg handler f b.
       require_resolve env (moduleName nm) = Returns rp \<and> rp \<noteq> [] \<and>
       require env rp = Returns pkg \<and> \<not> nullish pkg \<and>
       js_get env pkg (exportKey nm) = Returns handler \<and> truthy handler \<and>
       (\<forall>k \<in> set [''argument'', ''input'', ''output'', ''channels''].
          (\<exists>x. js_get env pkg k = Returns x) \<and> (\<exists>y. js_get env handler k = Returns y)) \<and>
       js_get env handler ''bind'' = Returns f \<and> callable f \<and>
       js_call env f handler [JUndefined] = Returns b \<and> \<not> nullish b \<and>
       js_assign env b = Returns ())" .
qed

text \<open>
  The name \<open>jobs/add#sum#x\<close> selects the export \<open>sum\<close> of \<open>jobs/add\<close>, a function
  with the \<open>bind\<close> of every function: a handler is returned.
\<close>

theorem get_returns_handler_iff_witness:
  "moduleName ''jobs/add#sum#x'' = ''jobs/add'' \<and>
   exportName ''jobs/add#sum#x'' = Some ''sum'' \<and>
   (\<exists>h. get sample_env ''jobs/add#sum#x'' = Returns (Some h))"
proof -
  let ?h = "JFun 1 [(''argument'', JObj [])]"
  have "require_resolve sample_env (moduleName ''jobs/add#sum#x'') = Returns ''/node_modules/jobs/add.js'' \<and>
        ''/node_modules/jobs/add.js'' \<noteq> [] \<and>
        require sample_env ''/node_modules/jobs/add.js'' = Returns add_module \<and>
        \<not> nullish add_module \<and>
        js_get sample_env add_module (exportKey ''jobs/add#sum#x'') = Returns ?h \<and> truthy ?h \<and>
        (\<forall>k \<in> set [''argument'', ''input'', ''output'', ''channels''].
          (\<exists>x. js_get sample_env add_module k = Returns x) \<and>
          (\<exists>y. js_get sample_env ?h k = Returns y)) \<and>
        js_get sample_env ?h ''bind'' = Returns (JBuiltin ''Function.prototype.bind'') \<and>
        callable (JBuiltin ''Function.prototype.bind'') \<and>
        js_call sample_env (JBuiltin ''Function.prototype.bind'') ?h [JUndefined] =
          Returns (JBound ?h) \<and>
        \<not> nullish (JBound ?h) \<and> js_assign sample_env (JBound ?h) = Returns ()"
    by (simp add: sample_names sample_env_def sample_resolve_def sample_require_def
          add_module_def object_prototype_members_def function_member_def sample_call_def)
  then have "\<exists>rp pkg handler f b.
       require_resolve sample_env (moduleName ''jobs/add#sum#x'') = Returns rp \<and> rp \<noteq> [] \<and>
       require sample_env rp = Returns pkg \<and> \<not> nullish pkg \<and>
       js_get sample_env pkg (exportKey ''jobs/add#sum#x'') = Returns handler \<and> truthy handler \<and>
       (\<forall>k \<in> set [''argument'', ''input'', ''output'', ''channels''].
          (\<exists>x. js_get sample_env pkg k = Returns x) \<and>
          (\<exists>y. js_get sample_env handler k = Returns y)) \<and>
       js_get sample_env handler ''bind'' = Returns f \<and> callable f \<and>
       js_call sample_env f handler [JUndefined] = Returns b \<and> \<not> nullish b \<and>
       js_assign sample_env b = Returns ()"
    by blast
  with get_returns_handler_iff[of "''jobs/add#sum#x''" sample_env] show ?thesis
    by simp
qed

section \<open>Properties of SchematicCommand\<close>

subsection \<open>getCollection\<close>

text \<open>
  C7. For every collection name, \<open>getCollection\<close> returns the collection the engine
  produced or throws \<open>UnknownCollectionError\<close>, never both, and it throws exactly when the
  engine's \<open>createCollection\<close> returns \<open>null\<close>; the error names the collection.
\<close>

theorem getCollection_returns_or_throws:
  "(getCollection eng n = Inr c \<longleftrightarrow> createCollection eng n = Some c) \<and>
   (getCollection eng n = Inl err \<longleftrightarrow>
      createCollection eng n = None \<and> err = unknownCollectionError n) \<and>
   cls (unknownCollectionError n) = UnknownCollectionError \<and>
   message (unknownCollectionError n) = ''Invalid collection ('' @ n @ '').''"
  by (auto simp: getCollection_def unknownCollectionError_def split: option.splits)

theorem getCollection_returns_or_throws_witness:
  "getCollection sample_engine ''@schematics/angular'' = Inr 7 \<and>
   getCollection sample_engine ''nope'' = Inl (unknownCollectionError ''nope'') \<and>
   message (unknownCollectionError ''nope'') = ''Invalid collection (nope).''"
  using getCollection_returns_or_throws[of sample_engine "''@schematics/angular''" 7]
    getCollection_returns_or_throws[of sample_engine "''nope''" _ "unknownCollectionError ''nope''"]
  by (simp add: sample_engine_def)

subsection \<open>The logging queue\<close>















subsection \<open>The error callback\<close>





section \<open>Properties of the ng-new rule\<close>

lemma register_tasks_new:
  "tasks (register_tasks options ctx) =
     tasks ctx @
     (if skipInstall options then []
      else \<lparr>task_id_of = TaskId (length (tasks ctx)),
            configuration = NodePackageInstallTask (directory options) (packageManager options),
            dependencies = []\<rparr> #
           (if linkCli options
            then [\<lparr>task_id_of = TaskId (Suc (length (tasks ctx))),
                   configuration = NodePackageLinkTask ''@angular/cli'' (directory options),
                   dependencies = [TaskId (length (tasks ctx))]\<rparr>]
            else [])) @
     (if skipGit options then []
      else [\<lparr>task_id_of =
                TaskId (length (tasks ctx) +
                        (if skipInstall options then 0 else if linkCli options then 2 else 1)),
              configuration =
                RepositoryInitializerTask (directory options) (commit_of (commit options)),
              dependencies =
                (if skipInstall options then []
                 else [TaskId (length (tasks ctx) + (if linkCli options then 1 else 0))])\<rparr>])"
  by (simp add: register_tasks_def addTask_def Let_def)

lemma registered_eq:
  "registered options ctx =
     (if skipInstall options then []
      else \<lparr>task_id_of = TaskId (length (tasks ctx)),
            configuration = NodePackageInstallTask (directory options) (packageManager options),
            dependencies = []\<rparr> #
           (if linkCli options
            then [\<lparr>task_id_of = TaskId (Suc (length (tasks ctx))),
                   configuration = NodePackageLinkTask ''@angular/cli'' (directory options),
                   dependencies = [TaskId (length (tasks ctx))]\<rparr>]
            else [])) @
     (if skipGit options then []
      else [\<lparr>task_id_of =
                TaskId (length (tasks ctx) +
                        (if skipInstall options then 0 else if linkCli options then 2 else 1)),
              configuration =
                RepositoryInitializerTask (directory options) (commit_of (commit options)),
              dependencies =
                (if skipInstall options then []
                 else [TaskId (length (tasks ctx) + (if linkCli options then 1 else 0))])\<rparr>])"
  unfolding registered_def by (subst register_tasks_new) simp

lemma registered_ids:
  "map task_id_of (registered options ctx) =
     map TaskId [length (tasks ctx) ..< length (tasks ctx) + length (registered options ctx)]"
  by (simp add: registered_eq upt_rec)

lemma registered_no_forward: "no_forward [] (registered options ctx)"
  by (simp add: registered_eq)

lemma backward_edges_acyclic:
  assumes "\<And>a b. (a, b) \<in> r \<Longrightarrow> task_number b < task_number a"
  shows "acyclic r"
proof -
  have "r\<inverse> \<subseteq> measure task_number"
    using assms by auto
  then have "wf (r\<inverse>)"
    by (rule wf_subset[OF wf_measure])
  then have "acyclic (r\<inverse>)"
    by (rule wf_acyclic)
  then show ?thesis
    by simp
qed

lemma dependency_edges_Cons:
  "dependency_edges (t # ts) =
     {(task_id_of t, d) | d. d \<in> set (dependencies t)} \<union> dependency_edges ts"
  by (auto simp: dependency_edges_def)

lemma no_forward_backward:
  assumes "no_forward seen new"
    and "map task_id_of new = map TaskId [n ..< n + length new]"
    and "\<forall>s \<in> set seen. task_number s < n"
    and "(a, b) \<in> dependency_edges new"
  shows "task_number b < task_number a"
  using assms
proof (induction new arbitrary: seen n)
  case Nil
  then show ?case by (simp add: dependency_edges_def)
next
  case (Cons t ts)
  have "n < n + length (t # ts)"
    by simp
  then have "[n ..< n + length (t # ts)] = n # [Suc n ..< n + length (t # ts)]"
    by (rule upt_conv_Cons)
  then have "map task_id_of (t # ts) = map TaskId (n # [Suc n ..< Suc n + length ts])"
    using Cons.prems(2) by simp
  then have hd: "task_id_of t = TaskId n"
    and tl: "map task_id_of ts = map TaskId [Suc n ..< Suc n + length ts]"
    by simp_all
  from Cons.prems(4) consider "a = task_id_of t" "b \<in> set (dependencies t)"
    | "(a, b) \<in> dependency_edges ts"
    by (auto simp: dependency_edges_Cons)
  then show ?case
  proof cases
    case 1
    with Cons.prems(1,3) hd show ?thesis by auto
  next
    case 2
    have "no_forward (seen @ [task_id_of t]) ts"
      using Cons.prems(1) by simp
    moreover have "\<forall>s \<in> set (seen @ [task_id_of t]). task_number s < Suc n"
      using Cons.prems(3) hd by (auto simp: less_Suc_eq)
    ultimately show ?thesis
      using Cons.IH[OF _ tl _ 2] by blast
  qed
qed

text \<open>
  C8. In every execution of the task-registration step of the ng-new rule, whatever the
  options and the tasks already in the context: the step appends its tasks to the context,
  their ids are the next indices in order, each dependency list passed to \<open>addTask\<close> holds
  only ids returned by earlier \<open>addTask\<close> calls of the same execution, and the dependency
  graph of the registered tasks is acyclic.
\<close>

theorem register_tasks_no_forward_references:
  "tasks (register_tasks options ctx) = tasks ctx @ registered options ctx \<and>
   map task_id_of (registered options ctx) =
     map TaskId [length (tasks ctx) ..< length (tasks ctx) + length (registered options ctx)] \<and>
   no_forward [] (registered options ctx) \<and>
   acyclic (dependency_edges (registered options ctx))"
proof (intro conjI)
  show "tasks (register_tasks options ctx) = tasks ctx @ registered options ctx"
    unfolding registered_def by (subst (1 2) register_tasks_new) simp
  show "map task_id_of (registered options ctx) =
     map TaskId [length (tasks ctx) ..< length (tasks ctx) + length (registered options ctx)]"
    by (rule registered_ids)
  show "no_forward [] (registered options ctx)"
    by (rule registered_no_forward)
  show "acyclic (dependency_edges (registered options ctx))"
  proof (rule backward_edges_acyclic)
    fix a b
    assume "(a, b) \<in> dependency_edges (registered options ctx)"
    from no_forward_backward[OF registered_no_forward registered_ids _ this]
    show "task_number b < task_number a"
      by simp
  qed
qed

text \<open>
  Install, link and repository initialisation in a fresh context: the link task depends on
  the install task, the repository initializer on the link task.
\<close>

theorem register_tasks_no_forward_references_witness:
  "tasks (register_tasks sample_options \<lparr>tasks = []\<rparr>) =
     registered sample_options \<lparr>tasks = []\<rparr> \<and>
   map dependencies (registered sample_options \<lparr>tasks = []\<rparr>) = [ [], [TaskId 0], [TaskId 1] ] \<and>
   map task_id_of (registered sample_options \<lparr>tasks = []\<rparr>) = [TaskId 0, TaskId 1, TaskId 2] \<and>
   no_forward [] (registered sample_options \<lparr>tasks = []\<rparr>) \<and>
   acyclic (dependency_edges (registered sample_options \<lparr>tasks = []\<rparr>))"
proof -
  have "map dependencies (registered sample_options \<lparr>tasks = []\<rparr>) = [ [], [TaskId 0], [TaskId 1] ]"
    by (simp add: registered_def register_tasks_def addTask_def Let_def sample_options_def)
  moreover from this have "length (registered sample_options \<lparr>tasks = []\<rparr>) = 3"
    using length_map[of dependencies "registered sample_options \<lparr>tasks = []\<rparr>"] by simp
  ultimately show ?thesis
    using register_tasks_no_forward_references[of sample_options "\<lparr>tasks = []\<rparr>"]
    by (simp add: upt_rec)
qed

section \<open>Properties of the Virtual Tree\<close>

lemma read_fun: "read t = foldl apply_action (base t) (actions t)"
  by (rule ext) (simp add: read_def)

lemma read_stage: "read (stage a t) q = apply_action (read t) a q"
  by (simp add: read_fun stage_def)

lemma base_stage: "base (stage a t) = base t"
  by (simp add: stage_def)

lemma effective_stage:
  "effective_action (stage a t) q =
     (if action_path a = q then fold_operation (effective_action t q) (operation_of a)
      else effective_action t q)"
  by (simp add: effective_action_def stage_def)

lemma read_untouched:
  "\<forall>a \<in> set as. action_path a \<noteq> q \<Longrightarrow> foldl apply_action st as q = st q"
proof (induction as arbitrary: st)
  case Nil
  then show ?case by simp
next
  case (Cons a as)
  then have "foldl apply_action (apply_action st a) as q = apply_action st a q"
    by simp
  moreover have "apply_action st a q = st q"
    using Cons.prems by (cases a) auto
  ultimately show ?case by simp
qed

lemma action_of_simps [simp]:
  "action_path (action_of p x) = p" "operation_of (action_of p x) = x"
  by (cases x; simp)+

lemma issue_Inr: "issue t p x = Inr t' \<Longrightarrow> t' = stage (action_of p x) t"
  by (cases x) (auto simp: create_def overwrite_def delete_def split: if_splits)

lemma consistent_commit: "consistent e rd b \<Longrightarrow> commit_effective e b = rd"
  by (cases e) auto

lemma issue_consistent:
  assumes "issue t p x = Inr t'"
    and "consistent (effective_action t p) (read t p) (base t p)"
  shows "consistent (effective_action t' p) (read t' p) (base t' p)"
proof -
  have t': "t' = stage (action_of p x) t"
    using assms(1) by (rule issue_Inr)
  show ?thesis
  proof (cases x)
    case (DoCreate c)
    with assms(1) have "read t p = None"
      by (auto simp: create_def exists_def split: if_splits)
    with assms(2) DoCreate show ?thesis
      unfolding t'
      by (cases "effective_action t p") (auto simp: effective_stage read_stage base_stage)
  next
    case (DoOverwrite c)
    with assms(1) have "read t p \<noteq> None"
      by (auto simp: overwrite_def exists_def split: if_splits)
    with assms(2) DoOverwrite show ?thesis
      unfolding t'
      by (cases "effective_action t p") (auto simp: effective_stage read_stage base_stage)
  next
    case DoDelete
    with assms(1) have "read t p \<noteq> None"
      by (auto simp: delete_def exists_def split: if_splits)
    with assms(2) DoDelete show ?thesis
      unfolding t'
      by (cases "effective_action t p") (auto simp: effective_stage read_stage base_stage)
  qed
qed

lemma issue_all_effective:
  "issue_all t p xs = Inr t' \<Longrightarrow>
   effective_action t' p = foldl fold_operation (effective_action t p) xs"
proof (induction xs arbitrary: t)
  case Nil
  then show ?case by simp
next
  case (Cons x xs)
  then obtain t1 where t1: "issue t p x = Inr t1" "issue_all t1 p xs = Inr t'"
    by (auto split: sum.splits)
  from issue_Inr[OF t1(1)] have "effective_action t1 p = fold_operation (effective_action t p) x"
    by (simp add: effective_stage)
  with Cons.IH[OF t1(2)] show ?case by simp
qed

lemma issue_all_other:
  "issue_all t p xs = Inr t' \<Longrightarrow> q \<noteq> p \<Longrightarrow>
   effective_action t' q = effective_action t q \<and> read t' q = read t q"
proof (induction xs arbitrary: t)
  case Nil
  then show ?case by simp
next
  case (Cons x xs)
  then obtain t1 where t1: "issue t p x = Inr t1" "issue_all t1 p xs = Inr t'"
    by (auto split: sum.splits)
  from issue_Inr[OF t1(1)] Cons.prems(2)
  have "effective_action t1 q = effective_action t q \<and> read t1 q = read t q"
    by (cases x) (auto simp: effective_stage read_stage)
  with Cons.IH[OF t1(2) Cons.prems(2)] show ?case by simp
qed

lemma issue_all_consistent:
  "issue_all t p xs = Inr t' \<Longrightarrow>
   consistent (effective_action t p) (read t p) (base t p) \<Longrightarrow>
   consistent (effective_action t' p) (read t' p) (base t' p)"
proof (induction xs arbitrary: t)
  case Nil
  then show ?case by simp
next
  case (Cons x xs)
  then obtain t1 where t1: "issue t p x = Inr t1" "issue_all t1 p xs = Inr t'"
    by (auto split: sum.splits)
  from issue_consistent[OF t1(1) Cons.prems(2)] Cons.IH[OF t1(2)] show ?case by simp
qed

lemma untouched_consistent:
  assumes "\<forall>a \<in> set (actions t). action_path a \<noteq> p"
  shows "effective_action t p = NoAction" "read t p = base t p"
proof -
  from assms have "filter (\<lambda>a. action_path a = p) (actions t) = []"
    by (simp add: filter_empty_conv)
  then show "effective_action t p = NoAction"
    by (simp add: effective_action_def)
  from assms show "read t p = base t p"
    by (simp add: read_def read_untouched)
qed

lemma collapse_create_overwrite:
  "fold_operation (fold_operation e (DoCreate c)) (DoOverwrite c') = fold_operation e (DoCreate c')"
  by (cases e) auto

lemma issue_all_staged:
  "issue_all empty_tree ''a.txt'' [DoCreate ''1'', DoOverwrite ''2''] = Inr staged_tree"
  by (simp add: empty_tree_def staged_tree_def create_def overwrite_def exists_def read_def
        stage_def)

text \<open>
  Against C4 as stated: a create issued on a path where a file is live, here after a
  staged create and overwrite, violates its precondition and fails with
  \<open>PathAlreadyExistsError\<close>, not with \<open>PathDoesNotExistError\<close>.
\<close>

theorem create_on_live_path_counterexample:
  "issue_all empty_tree ''a.txt'' [DoCreate ''1'', DoOverwrite ''2''] = Inr staged_tree \<and>
   exists staged_tree ''a.txt'' \<and>
   create staged_tree ''a.txt'' ''3'' = Inl (PathAlreadyExistsError ''a.txt'') \<and>
   create staged_tree ''a.txt'' ''3'' \<noteq> Inl (PathDoesNotExistError ''a.txt'')"
  by (simp add: empty_tree_def staged_tree_def create_def overwrite_def exists_def read_def
        stage_def)

text \<open>
  C4, amended. For every finite sequence of create, overwrite and delete operations issued
  on one path of a Tree and accepted by it, the finalized effective action of that path is
  the fold of the sequence, started from the effective action the path had before and from
  no action when nothing was staged on the path; other paths keep their effective action;
  and committing the effective action to the base store gives the file that reading the
  Tree gives. A create followed by a delete folds to no action, a create followed by an
  overwrite to one create with the latest content. An overwrite or a delete issued on a
  path that does not exist fails with \<open>PathDoesNotExistError\<close>; a create issued on a path
  that exists fails with \<open>PathAlreadyExistsError\<close>.
\<close>

theorem effective_action_is_fold:
  "(issue_all t p xs = Inr t' \<longrightarrow>
      effective_action t' p = foldl fold_operation (effective_action t p) xs \<and>
      (\<forall>q. q \<noteq> p \<longrightarrow> effective_action t' q = effective_action t q) \<and>
      ((\<forall>a \<in> set (actions t). action_path a \<noteq> p) \<longrightarrow>
         effective_action t' p = foldl fold_operation NoAction xs \<and>
         commit_effective (effective_action t' p) (base t' p) = read t' p)) \<and>
   foldl fold_operation NoAction [DoCreate c, DoDelete] = NoAction \<and>
   foldl fold_operation NoAction [DoCreate c, DoOverwrite c'] = EffCreate c' \<and>
   fold_operation (fold_operation e (DoCreate c)) (DoOverwrite c') = fold_operation e (DoCreate c') \<and>
   (\<not> exists t p \<longrightarrow>
      overwrite t p c = Inl (PathDoesNotExistError p) \<and>
      delete t p = Inl (PathDoesNotExistError p)) \<and>
   (exists t p \<longrightarrow> create t p c = Inl (PathAlreadyExistsError p))"
proof (intro conjI impI allI)
  assume r: "issue_all t p xs = Inr t'"
  then show "effective_action t' p = foldl fold_operation (effective_action t p) xs"
    by (rule issue_all_effective)
  fix q assume "q \<noteq> p"
  with r show "effective_action t' q = effective_action t q"
    by (simp add: issue_all_other)
next
  assume r: "issue_all t p xs = Inr t'"
    and u: "\<forall>a \<in> set (actions t). action_path a \<noteq> p"
  from untouched_consistent[OF u] issue_all_effective[OF r]
  show "effective_action t' p = foldl fold_operation NoAction xs"
    by simp
  from untouched_consistent[OF u]
  have "consistent (effective_action t p) (read t p) (base t p)"
    by simp
  from issue_all_consistent[OF r this]
  show "commit_effective (effective_action t' p) (base t' p) = read t' p"
    by (rule consistent_commit)
next
  show "fold_operation (fold_operation e (DoCreate c)) (DoOverwrite c') =
          fold_operation e (DoCreate c')"
    by (rule collapse_create_overwrite)
qed (simp_all add: create_def overwrite_def delete_def)

text \<open>
  A create of \<open>a.txt\<close> with content 1 followed by an overwrite with content 2 on an empty
  Tree is one create with content 2.
\<close>

theorem effective_action_is_fold_witness:
  "effective_action staged_tree ''a.txt'' = EffCreate ''2'' \<and>
   read staged_tree ''a.txt'' = Some ''2'' \<and>
   overwrite empty_tree ''a.txt'' ''x'' = Inl (PathDoesNotExistError ''a.txt'') \<and>
   delete empty_tree ''a.txt'' = Inl (PathDoesNotExistError ''a.txt'') \<and>
   create staged_tree ''a.txt'' ''3'' = Inl (PathAlreadyExistsError ''a.txt'')"
proof -
  have b: "\<forall>a \<in> set (actions empty_tree). action_path a \<noteq> ''a.txt''"
    "\<not> exists empty_tree ''a.txt''" "exists staged_tree ''a.txt''"
    by (simp_all add: empty_tree_def staged_tree_def exists_def read_def)
  from effective_action_is_fold[of empty_tree "''a.txt''" "[DoCreate ''1'', DoOverwrite ''2'']"
         staged_tree] issue_all_staged b(1)
  have e: "effective_action staged_tree ''a.txt'' =
             foldl fold_operation NoAction [DoCreate ''1'', DoOverwrite ''2'']"
    and r: "commit_effective (effective_action staged_tree ''a.txt'') (base staged_tree ''a.txt'') =
              read staged_tree ''a.txt''"
    by blast+
  from effective_action_is_fold[of empty_tree "''a.txt''" _ _ "''x''"] b(2)
  have o: "overwrite empty_tree ''a.txt'' ''x'' = Inl (PathDoesNotExistError ''a.txt'')"
    and d: "delete empty_tree ''a.txt'' = Inl (PathDoesNotExistError ''a.txt'')"
    by blast+
  from effective_action_is_fold[of staged_tree "''a.txt''" _ _ "''3''"] b(3)
  have c: "create staged_tree ''a.txt'' ''3'' = Inl (PathAlreadyExistsError ''a.txt'')"
    by blast
  from e have e': "effective_action staged_tree ''a.txt'' = EffCreate ''2''"
    by simp
  from r e' have "read staged_tree ''a.txt'' = Some ''2''"
    by simp
  with e' o d c show ?thesis
    by simp
qed

section \<open>Properties of the web worker schematic\<close>

lemma present_Some: "present x = Some y \<Longrightarrow> x = Some y \<and> y \<noteq> []"
  by (cases x) (auto split: if_splits)

text \<open>
  Against C10 as stated: the options lack \<open>project\<close>, and the workspace of the host cannot
  be read. The rule awaits \<open>getWorkspace\<close> before it looks at the options, so what is
  thrown is the error of the workspace reader, an \<open>Error\<close>, not a \<open>SchematicsException\<close>.
\<close>

theorem web_worker_unreadable_workspace_counterexample:
  "project (worker_options None (Some ''build'')) = None \<and>
   web_worker versionless_workspace sample_continue (worker_options None (Some ''build''))
     empty_tree =
     (Some (plain_error ''Unknown format - version specifier not found.''), empty_tree) \<and>
   cls (plain_error ''Unknown format - version specifier not found.'') \<noteq> SchematicsException"
  by (simp add: web_worker_def versionless_workspace_def worker_options_def plain_error_def)

text \<open>
  C10, amended. For every invocation of the web worker schematic the workspace is read
  first: when reading it fails, the rule throws the error of the reader. When the
  workspace is read and the options lack \<open>project\<close> or \<open>target\<close>, or the named project is
  not in the workspace or is not of project type \<open>application\<close>, the rule throws a
  \<open>SchematicsException\<close>, and when the project has no target of the given name it throws an
  \<open>Error\<close>; the checks are made in this order. In each of these failures the rest of the
  rule does not run, no Tree action is staged and the Tree is left as it was.
\<close>

theorem web_worker_validation_leaves_tree_unchanged:
  "(getWorkspace host = Inl e \<longrightarrow>
      web_worker getWorkspace cont options host = (Some e, host)) \<and>
   (getWorkspace host = Inr ws \<longrightarrow>
    (present (project options) = None \<longrightarrow>
       web_worker getWorkspace cont options host =
         (Some (schematicsException
                  (''Option '' @ dquote @ ''project'' @ dquote @ '' is required.'')), host)) \<and>
    (present (project options) = Some pn \<and> present (target options) = None \<longrightarrow>
       web_worker getWorkspace cont options host =
         (Some (schematicsException
                  (''Option '' @ dquote @ ''target'' @ dquote @ '' is required.'')), host)) \<and>
    (present (project options) = Some pn \<and> present (target options) = Some tn \<and>
     map_of (projects ws) pn = None \<longrightarrow>
       web_worker getWorkspace cont options host =
         (Some (schematicsException (''Invalid project name ('' @ pn @ '')'')), host)) \<and>
    (present (project options) = Some pn \<and> present (target options) = Some tn \<and>
     map_of (projects ws) pn = Some pr \<and>
     map_of (extensions pr) ''projectType'' \<noteq> Some (JStr ''application'') \<longrightarrow>
       web_worker getWorkspace cont options host =
         (Some (schematicsException
                  (''Web Worker requires a project type of '' @ dquote @ ''application''
                     @ dquote @ ''.'')), host)) \<and>
    (present (project options) = Some pn \<and> present (target options) = Some tn \<and>
     map_of (projects ws) pn = Some pr \<and>
     map_of (extensions pr) ''projectType'' = Some (JStr ''application'') \<and>
     map_of (targets pr) tn = None \<longrightarrow>
       web_worker getWorkspace cont options host =
         (Some (plain_error ''Target is not defined for this project.''), host)) \<and>
    (present (project options) = None \<or> present (target options) = None \<or>
     (\<exists>x. project options = Some x \<and> map_of (projects ws) x = None) \<or>
     (\<exists>x y. project options = Some x \<and> map_of (projects ws) x = Some y \<and>
        map_of (extensions y) ''projectType'' \<noteq> Some (JStr ''application'')) \<longrightarrow>
       (\<exists>err. web_worker getWorkspace cont options host = (Some err, host) \<and>
              cls err = SchematicsException)))"
proof (intro conjI impI)
  assume w: "getWorkspace host = Inr ws"
  assume bad: "present (project options) = None \<or> present (target options) = None \<or>
     (\<exists>x. project options = Some x \<and> map_of (projects ws) x = None) \<or>
     (\<exists>x y. project options = Some x \<and> map_of (projects ws) x = Some y \<and>
        map_of (extensions y) ''projectType'' \<noteq> Some (JStr ''application''))"
  show "\<exists>err. web_worker getWorkspace cont options host = (Some err, host) \<and>
              cls err = SchematicsException"
  proof (cases "present (project options)")
    case None
    with w show ?thesis
      by (simp add: web_worker_def schematicsException_def)
  next
    case (Some x)
    note p = this present_Some[OF this]
    show ?thesis
    proof (cases "present (target options)")
      case None
      with w p show ?thesis
        by (simp add: web_worker_def schematicsException_def)
    next
      case (Some z)
      with w p bad show ?thesis
        by (auto simp: web_worker_def schematicsException_def split: option.splits)
    qed
  qed
qed (simp_all add: web_worker_def)

text \<open>
  The failures on a workspace with the application \<open>app\<close> and the library \<open>lib\<close>, and on
  a workspace that is not read; the rest of the rule would have staged the worker file.
\<close>

theorem web_worker_validation_leaves_tree_unchanged_witness:
  "web_worker versionless_workspace sample_continue (worker_options (Some ''app'') (Some ''build''))
     empty_tree =
     (Some (plain_error ''Unknown format - version specifier not found.''), empty_tree) \<and>
   web_worker (\<lambda>h. Inr sample_workspace) sample_continue (worker_options None (Some ''build''))
     empty_tree =
     (Some (schematicsException (''Option '' @ dquote @ ''project'' @ dquote @ '' is required.'')),
      empty_tree) \<and>
   web_worker (\<lambda>h. Inr sample_workspace) sample_continue (worker_options (Some ''app'') (Some []))
     empty_tree =
     (Some (schematicsException (''Option '' @ dquote @ ''target'' @ dquote @ '' is required.'')),
      empty_tree) \<and>
   web_worker (\<lambda>h. Inr sample_workspace) sample_continue
     (worker_options (Some ''nope'') (Some ''build'')) empty_tree =
     (Some (schematicsException ''Invalid project name (nope)''), empty_tree) \<and>
   web_worker (\<lambda>h. Inr sample_workspace) sample_continue
     (worker_options (Some ''lib'') (Some ''build'')) empty_tree =
     (Some (schematicsException
        (''Web Worker requires a project type of '' @ dquote @ ''application'' @ dquote @ ''.'')),
      empty_tree) \<and>
   web_worker (\<lambda>h. Inr sample_workspace) sample_continue
     (worker_options (Some ''app'') (Some ''test'')) empty_tree =
     (Some (plain_error ''Target is not defined for this project.''), empty_tree)"
  using
    web_worker_validation_leaves_tree_unchanged[of versionless_workspace empty_tree
      "plain_error ''Unknown format - version specifier not found.''" sample_continue
      "worker_options (Some ''app'') (Some ''build'')"]
    web_worker_validation_leaves_tree_unchanged[of "\<lambda>h. Inr sample_workspace" empty_tree
      _ sample_continue "worker_options None (Some ''build'')" sample_workspace]
    web_worker_validation_leaves_tree_unchanged[of "\<lambda>h. Inr sample_workspace" empty_tree
      _ sample_continue "worker_options (Some ''app'') (Some [])" sample_workspace "''app''"]
    web_worker_validation_leaves_tree_unchanged[of "\<lambda>h. Inr sample_workspace" empty_tree
      _ sample_continue "worker_options (Some ''nope'') (Some ''build'')" sample_workspace
      "''nope''" "''build''"]
    web_worker_validation_leaves_tree_unchanged[of "\<lambda>h. Inr sample_workspace" empty_tree
      _ sample_continue "worker_options (Some ''lib'') (Some ''build'')" sample_workspace
      "''lib''" "''build''"
      "\<lparr>root = ''projects/lib'', extensions = [(''projectType'', JStr ''library'')],
        targets = [(''build'', \<lparr>builder = ''ng-packagr'', target_options = []\<rparr>)]\<rparr>"]
    web_worker_validation_leaves_tree_unchanged[of "\<lambda>h. Inr sample_workspace" empty_tree
      _ sample_continue "worker_options (Some ''app'') (Some ''test'')" sample_workspace
      "''app''" "''test''"
      "\<lparr>root = [], extensions = [(''projectType'', JStr ''application'')],
        targets = [(''build'', \<lparr>builder = ''browser'', target_options = []\<rparr>)]\<rparr>"]
  by (simp add: worker_options_def sample_workspace_def versionless_workspace_def)

end
